theory Spec2Isabelle
  imports Complex_Main
begin

section \<open>Numbers\<close>

text \<open>
  The program computes with double-precision floats. They are modelled by the real
  numbers, extended by the three values that a float operation returns when it has no
  finite result: the two infinities and NaN. Rounding is not modelled. The operations
  below follow the float operations on these values: NaN propagates, a division by zero
  gives an infinity or NaN, and every comparison with NaN is false.
\<close>

datatype num = Fin real | PInf | NInf | NaN

fun num_neg :: "num \<Rightarrow> num" where
  "num_neg (Fin a) = Fin (- a)"
| "num_neg PInf = NInf"
| "num_neg NInf = PInf"
| "num_neg NaN = NaN"

fun signed_inf :: "real \<Rightarrow> num" where
  "signed_inf s = (if s = 0 then NaN else if 0 < s then PInf else NInf)"

fun num_mul :: "num \<Rightarrow> num \<Rightarrow> num" where
  "num_mul (Fin a) (Fin b) = Fin (a * b)"
| "num_mul NaN _ = NaN"
| "num_mul _ NaN = NaN"
| "num_mul (Fin a) PInf = signed_inf a"
| "num_mul (Fin a) NInf = signed_inf (- a)"
| "num_mul PInf (Fin b) = signed_inf b"
| "num_mul NInf (Fin b) = signed_inf (- b)"
| "num_mul PInf PInf = PInf"
| "num_mul PInf NInf = NInf"
| "num_mul NInf PInf = NInf"
| "num_mul NInf NInf = PInf"

fun num_add :: "num \<Rightarrow> num \<Rightarrow> num" where
  "num_add (Fin a) (Fin b) = Fin (a + b)"
| "num_add NaN _ = NaN"
| "num_add _ NaN = NaN"
| "num_add PInf NInf = NaN"
| "num_add NInf PInf = NaN"
| "num_add PInf _ = PInf"
| "num_add NInf _ = NInf"
| "num_add (Fin a) b = b"

definition num_sub :: "num \<Rightarrow> num \<Rightarrow> num" where
  "num_sub a b = num_add a (num_neg b)"

fun num_div :: "num \<Rightarrow> num \<Rightarrow> num" where
  "num_div (Fin a) (Fin b) = (if b = 0 then signed_inf a else Fin (a / b))"
| "num_div NaN _ = NaN"
| "num_div _ NaN = NaN"
| "num_div (Fin a) _ = Fin 0"
| "num_div PInf (Fin b) = (if 0 \<le> b then PInf else NInf)"
| "num_div NInf (Fin b) = (if 0 \<le> b then NInf else PInf)"
| "num_div _ _ = NaN"

text \<open>\<^verbatim>\<open>x ** 0.5\<close> on floats: NaN for a negative finite base.\<close>

fun num_sqrt :: "num \<Rightarrow> num" where
  "num_sqrt (Fin a) = (if a < 0 then NaN else Fin (sqrt a))"
| "num_sqrt NaN = NaN"
| "num_sqrt _ = PInf"

fun num_cos :: "num \<Rightarrow> num" where
  "num_cos (Fin a) = Fin (cos a)"
| "num_cos _ = NaN"

text \<open>\<^verbatim>\<open>np.arccos\<close>: NaN outside \<open>[-1, 1]\<close>.\<close>

fun num_arccos :: "num \<Rightarrow> num" where
  "num_arccos (Fin a) = (if - 1 \<le> a \<and> a \<le> 1 then Fin (arccos a) else NaN)"
| "num_arccos _ = NaN"

text \<open>\<^verbatim>\<open>a > b\<close> on floats.\<close>

fun num_gt :: "num \<Rightarrow> num \<Rightarrow> bool" where
  "num_gt (Fin a) (Fin b) = (b < a)"
| "num_gt NaN _ = False"
| "num_gt _ NaN = False"
| "num_gt PInf b = (b \<noteq> PInf)"
| "num_gt a NInf = (a \<noteq> NInf)"
| "num_gt _ _ = False"

text \<open>\<^verbatim>\<open>np.clip(c, lo, hi)\<close>; NaN stays NaN.\<close>

fun num_clip :: "real \<Rightarrow> real \<Rightarrow> num \<Rightarrow> num" where
  "num_clip lo hi (Fin a) = Fin (min hi (max lo a))"
| "num_clip lo hi PInf = Fin hi"
| "num_clip lo hi NInf = Fin lo"
| "num_clip lo hi NaN = NaN"

section \<open>Errors and the built-in \<^verbatim>\<open>max\<close>\<close>

datatype error = ValueError | TypeError | KeyError | IndexError

text \<open>
  Python's \<^verbatim>\<open>max\<close> of a list: \<^verbatim>\<open>ValueError\<close> on the empty list; otherwise it
  keeps the first element and replaces it by each later element that compares greater.
\<close>

fun py_max :: "num list \<Rightarrow> error + num" where
  "py_max [] = Inl ValueError"
| "py_max (x # xs) = Inr (foldl (\<lambda>m y. if num_gt y m then y else m) x xs)"

section \<open>Series, frames and their statistics\<close>

text \<open>
  A \<^verbatim>\<open>pandas.Series\<close> is a name and its values; a \<^verbatim>\<open>pandas.DataFrame\<close> is the list
  of its named columns, in column order. The model covers series of numbers without
  missing values on the default positional index, and frames whose column names are
  pairwise distinct.
\<close>

record series =
  name :: string
  vals :: "real list"

type_synonym frame = "(string \<times> real list) list"

definition columns :: "frame \<Rightarrow> string list" where
  "columns df = map fst df"

text \<open>\<^verbatim>\<open>df[col]\<close>: the column of that name, \<^verbatim>\<open>KeyError\<close> when there is none.\<close>

definition getitem :: "frame \<Rightarrow> string \<Rightarrow> error + series" where
  "getitem df col =
     (case map_of df col of
        None \<Rightarrow> Inl KeyError
      | Some v \<Rightarrow> Inr \<lparr>name = col, vals = v\<rparr>)"

definition mean :: "real list \<Rightarrow> real" where
  "mean xs = sum_list xs / real (length xs)"

text \<open>Sum of the products of the deviations from the means.\<close>

definition sdev :: "real list \<Rightarrow> real list \<Rightarrow> real" where
  "sdev xs ys = (\<Sum>(x, y)\<leftarrow>zip xs ys. (x - mean xs) * (y - mean ys))"

text \<open>
  \<^verbatim>\<open>Series.std()\<close>: the sample standard deviation (one delta degree of freedom), NaN
  when the series has fewer than two values.
\<close>

definition std :: "real list \<Rightarrow> num" where
  "std xs =
     (if length xs < 2 then NaN
      else Fin (sqrt (sdev xs xs / real (length xs - 1))))"

text \<open>
  \<^verbatim>\<open>np.cov\<close> of two rows of equal length with one delta degree of freedom, and
  \<^verbatim>\<open>np.corrcoef(a, b)[0, 1]\<close>: the covariance divided by the two standard deviations
  in turn, clipped to \<open>[-1, 1]\<close>.
\<close>

definition cov :: "real list \<Rightarrow> real list \<Rightarrow> num" where
  "cov a b = num_div (Fin (sdev a b)) (Fin (real (length a - 1)))"

definition corrcoef :: "real list \<Rightarrow> real list \<Rightarrow> num" where
  "corrcoef a b =
     num_clip (- 1) 1
       (num_div (num_div (cov a b) (num_sqrt (cov a a))) (num_sqrt (cov b b)))"

text \<open>
  \<^verbatim>\<open>x.corr(other=y, method="pearson")\<close>: the two series are aligned on the index labels
  they share (on the positional index, the first \<open>min (length x) (length y)\<close>
  positions); NaN when nothing is left.
\<close>

definition corr :: "real list \<Rightarrow> real list \<Rightarrow> num" where
  "corr x y =
     (let n = min (length x) (length y); a = take n x; b = take n y
      in if n = 0 then NaN else corrcoef a b)"


section \<open>NumPy helpers\<close>

text \<open>
  \<^verbatim>\<open>np.linspace(start, stop, num)\<close> with the end point included: \<open>num\<close> values
  \<open>i * step + start\<close> with \<open>step = (stop - start) / (num - 1)\<close>, the last one
  overwritten by \<open>stop\<close>.
\<close>

definition linspace :: "num \<Rightarrow> num \<Rightarrow> nat \<Rightarrow> num list" where
  "linspace start stop n =
     (let delta = num_sub stop start in
      if n = 0 then []
      else if n = 1 then [num_add (num_mul (Fin 0) delta) start]
      else
        let step = num_div delta (Fin (real (n - 1)))
        in map (\<lambda>i. num_add (num_mul (Fin (real i)) step) start) [0..<n - 1] @ [stop])"

text \<open>
  \<^verbatim>\<open>np.meshgrid(x, y)\<close>: two arrays with one row per element of \<open>y\<close> and one column
  per element of \<open>x\<close>; the first repeats \<open>x\<close> in every row, the second repeats
  the row's element of \<open>y\<close> along the row.
\<close>

definition meshgrid :: "'a list \<Rightarrow> 'a list \<Rightarrow> 'a list list \<times> 'a list list" where
  "meshgrid x y = (map (\<lambda>_. x) y, map (\<lambda>v. map (\<lambda>_. v) x) y)"

text \<open>Python's \<^verbatim>\<open>xs[i]\<close> for a non-negative index.\<close>

definition py_index :: "'a list \<Rightarrow> nat \<Rightarrow> error + 'a" where
  "py_index xs i = (if i < length xs then Inr (xs ! i) else Inl IndexError)"

section \<open>The figure\<close>

text \<open>
  The plotting toolkit is outside the program. Its calls are recorded on the figure in
  the order in which the program makes them, with the arguments the program computes,
  and are taken to return normally. Tick labels are kept as the formatting applied to
  the number: \<^verbatim>\<open>str(x)\<close> and \<^verbatim>\<open>"%.1f" % x\<close>.
\<close>

datatype ticklabel = Str num | Fmt1f num | NoLabel

text \<open>
  A \<^verbatim>\<open>dict\<close> built from a list of pairs is kept as that list; a later pair with the
  same key replaces an earlier one. \<^verbatim>\<open>DictFormatter\<close> labels a tick by looking its
  location up, with the empty label when it is not a key.
\<close>

definition dict_get :: "('k \<times> 'v) list \<Rightarrow> 'k \<Rightarrow> 'v option" where
  "dict_get d k = map_of (rev d) k"

definition DictFormatter :: "(num \<times> ticklabel) list \<Rightarrow> num \<Rightarrow> ticklabel" where
  "DictFormatter d k = (case dict_get d k of Some l \<Rightarrow> l | None \<Rightarrow> NoLabel)"

type_synonym bounds = "real \<times> real \<times> real \<times> real"

record grid_helper =
  extremes :: "num \<times> num \<times> num \<times> num"
  grid_locator1 :: "num list"
  tick_formatter1 :: "(num \<times> ticklabel) list"
  grid_locator2 :: "num list"
  tick_formatter2 :: "(num \<times> ticklabel) list"

record point =
  theta :: num
  radius :: num
  linestyle :: string
  marker :: string
  color :: string
  markersize :: real
  alpha :: real
  kwargs :: "(string \<times> string) list"
  label :: string
  clip_on :: bool

datatype levels = LevelCount nat | LevelValues "num list"

datatype artist =
    AxisOff
  | AddAxes bounds grid_helper
  | AxisCall string string
  | Grid
  | PlotLine "num list" "num list" string
  | Contour "num list list" "num list list" "num list list" levels
  | CLabel
  | PlotPoint point
  | SetXlim num

section \<open>The diagram\<close>

text \<open>
  The attributes of a \<^verbatim>\<open>TaylorDiagram\<close> object. \<open>raw_refstd\<close> is the attribute
  \<^verbatim>\<open>_refstd\<close>. \<open>fig\<close> holds what has been drawn on the current figure by this
  object. The four statistics are assigned in \<^verbatim>\<open>step_up\<close> and hold NaN before.
\<close>

record diagram =
  points :: "point list"
  Normalize :: bool
  pkwargs :: "(string \<times> string) list"
  markers :: "string list"
  colors :: "string list"
  ms :: real
  ref :: series
  scale :: real
  samples :: frame
  fig :: "artist list"
  raw_refstd :: num
  stdmax :: num
  Smax :: num
  refstd :: num

text \<open>A failure carries the error and the object as it is when the error is raised.\<close>

type_synonym 'a result = "(error \<times> diagram) + 'a"

definition calc_loc :: "diagram \<Rightarrow> series \<Rightarrow> series \<Rightarrow> num \<times> num" where
  "calc_loc self x y =
     (let R = corr (vals x) (vals y);
          theta = num_arccos R;
          r = std (vals y)
      in (theta, if Normalize self then num_div r (raw_refstd self) else r))"

text \<open>
  The call that draws one marker:
  \<^verbatim>\<open>self.ax.plot(t, s, linestyle="", marker=.., color=.., markersize=self.ms, alpha=0.5, **self.pkwargs)\<close>.
  Python raises \<^verbatim>\<open>TypeError\<close> when \<^verbatim>\<open>pkwargs\<close> repeats one of the keywords written
  in the call.
\<close>

definition plot_keywords :: "string list" where
  "plot_keywords = [''linestyle'', ''marker'', ''color'', ''markersize'', ''alpha'']"

definition plot_marker :: "diagram \<Rightarrow> num \<Rightarrow> num \<Rightarrow> string \<Rightarrow> string \<Rightarrow> error + point" where
  "plot_marker self t s m c =
     (if \<exists>k \<in> set (map fst (pkwargs self)). k \<in> set plot_keywords
      then Inl TypeError
      else Inr \<lparr>theta = t, radius = s, linestyle = '''', marker = m, color = c,
                markersize = ms self, alpha = 0.5, kwargs = pkwargs self,
                label = '''', clip_on = True\<rparr>)"

definition draw :: "artist list \<Rightarrow> diagram \<Rightarrow> diagram" where
  "draw as self = self\<lparr>fig := fig self @ as\<rparr>"

subsection \<open>\<^verbatim>\<open>step_up\<close>\<close>

definition Rlocs :: "num list" where
  "Rlocs = map Fin [0, 0.2, 0.4, 0.6, 0.7, 0.8, 0.9, 0.95, 0.99, 1]"

definition Tlocs :: "num list" where
  "Tlocs = map num_arccos Rlocs"

text \<open>\<^verbatim>\<open>[self.samples[col].std() for col in self.samples.columns]\<close>\<close>

fun col_stds :: "frame \<Rightarrow> string list \<Rightarrow> error + num list" where
  "col_stds df [] = Inr []"
| "col_stds df (col # cols) =
     (case getitem df col of
        Inl e \<Rightarrow> Inl e
      | Inr y \<Rightarrow>
          (case col_stds df cols of
             Inl e \<Rightarrow> Inl e
           | Inr ss \<Rightarrow> Inr (std (vals y) # ss)))"

text \<open>
  \<^verbatim>\<open>(self.refstd**2 + rs**2 - 2 * self.refstd * rs * np.cos(ts)) ** 0.5\<close> at one grid
  node, and on the two arrays of \<^verbatim>\<open>meshgrid\<close>.
\<close>

definition rms_node :: "num \<Rightarrow> num \<Rightarrow> num \<Rightarrow> num" where
  "rms_node a r t =
     num_sqrt
       (num_sub (num_add (num_mul a a) (num_mul r r))
          (num_mul (num_mul (num_mul (Fin 2) a) r) (num_cos t)))"

definition rms_field :: "num \<Rightarrow> num list list \<Rightarrow> num list list \<Rightarrow> num list list" where
  "rms_field a rs ts =
     map (\<lambda>(rrow, trow). map (\<lambda>(r, t). rms_node a r t) (zip rrow trow)) (zip rs ts)"

text \<open>The styling of the four axis lines of the new axes, in the order of the calls.\<close>

definition axis_calls :: "artist list" where
  "axis_calls =
     [AxisCall ''top'' ''set_axis_direction(bottom)'',
      AxisCall ''top'' ''toggle(ticklabels=True, label=True)'',
      AxisCall ''top'' ''major_ticklabels.set_axis_direction(top)'',
      AxisCall ''top'' ''label.set_axis_direction(top)'',
      AxisCall ''top'' ''label.set_text(Correlation)'',
      AxisCall ''top'' ''major_ticklabels.set_pad(8)'',
      AxisCall ''left'' ''set_axis_direction(bottom)'',
      AxisCall ''left'' ''toggle(ticklabels=False)'',
      AxisCall ''right'' ''set_axis_direction(top)'',
      AxisCall ''right'' ''toggle(ticklabels=True, label=True)'',
      AxisCall ''right'' ''label.set_text(Standard deviation)'',
      AxisCall ''right'' ''major_ticklabels.set_axis_direction(left)'',
      AxisCall ''right'' ''major_ticklabels.set_pad(8)'',
      AxisCall ''bottom'' ''set_visible(False)'']"

text \<open>
  The first part of \<^verbatim>\<open>step_up\<close>, up to the assignment of \<^verbatim>\<open>self.refstd\<close>: the
  old axes are switched off and the four statistics are assigned.
\<close>

definition step_up_stats :: "diagram \<Rightarrow> diagram result" where
  "step_up_stats self0 =
     (let self1 = draw [AxisOff] self0;
          self2 = self1\<lparr>raw_refstd := std (vals (ref self1))\<rparr>
      in case col_stds (samples self2) (columns (samples self2)) of
           Inl e \<Rightarrow> Inl (e, self2)
         | Inr ss \<Rightarrow>
             (case py_max (ss @ [raw_refstd self2]) of
                Inl e \<Rightarrow> Inl (e, self2)
              | Inr m \<Rightarrow>
                  let self3 = self2\<lparr>stdmax := m\<rparr>;
                      self4 = self3\<lparr>Smax :=
                        num_mul (if Normalize self3 then Fin 1 else stdmax self3)
                          (Fin (scale self3))\<rparr>;
                      self5 = self4\<lparr>refstd :=
                        (if Normalize self4 then Fin 1 else raw_refstd self4)\<rparr>
                  in Inr self5))"

text \<open>The grid helper of the new axes: the two locators and the two formatters.\<close>

definition Slocs :: "diagram \<Rightarrow> num list" where
  "Slocs self = linspace (Fin 0) (Smax self) 4"

definition make_grid_helper :: "diagram \<Rightarrow> grid_helper" where
  "make_grid_helper self =
     \<lparr>extremes = (Fin 0, Fin (pi / 2), Fin 0, Smax self),
      grid_locator1 = Tlocs,
      tick_formatter1 = zip Tlocs (map Str Rlocs),
      grid_locator2 = Slocs self,
      tick_formatter2 = zip (Slocs self) (map Fmt1f (Slocs self))\<rparr>"

text \<open>The frame, the arc of the reference's standard deviation and the RMS contours.\<close>

definition std_arc :: "diagram \<Rightarrow> artist" where
  "std_arc self =
     (let t = linspace (Fin 0) (Fin (pi / 2)) 50;
          r = map (\<lambda>_. num_add (Fin 0) (refstd self)) t
      in PlotLine t r ''k--'')"

definition rms_contour :: "diagram \<Rightarrow> artist" where
  "rms_contour self =
     (let (rs, ts) = meshgrid (linspace (Fin 0) (Smax self) 100)
                       (linspace (Fin 0) (Fin (pi / 2)) 100);
          rms = rms_field (refstd self) rs ts
      in Contour ts rs rms
           (if Normalize self then LevelValues (linspace (Fin 0) (Fin (scale self)) 4)
            else LevelCount 4))"

definition step_up_frame :: "diagram \<Rightarrow> bounds \<Rightarrow> diagram" where
  "step_up_frame self ax =
     draw ([AddAxes ax (make_grid_helper self)] @ axis_calls @ [Grid]
           @ [std_arc self] @ [rms_contour self, CLabel]) self"

text \<open>The last part of \<^verbatim>\<open>step_up\<close>: the reference point.\<close>

definition step_up_ref :: "diagram \<Rightarrow> diagram result" where
  "step_up_ref self =
     (case py_index (markers self) 0 of
        Inl e \<Rightarrow> Inl (e, self)
      | Inr m \<Rightarrow>
          (case py_index (colors self) 0 of
             Inl e \<Rightarrow> Inl (e, self)
           | Inr c \<Rightarrow>
               (case plot_marker self (Fin 0) (refstd self) m c of
                  Inl e \<Rightarrow> Inl (e, self)
                | Inr p0 \<Rightarrow>
                    let p = p0\<lparr>label := name (ref self), clip_on := False\<rparr>;
                        self1 = draw [PlotPoint p] self
                    in Inr (self1\<lparr>points := points self1 @ [p]\<rparr>))))"

definition step_up :: "diagram \<Rightarrow> bounds \<Rightarrow> diagram result" where
  "step_up self ax =
     (case step_up_stats self of
        Inl f \<Rightarrow> Inl f
      | Inr self1 \<Rightarrow> step_up_ref (step_up_frame self1 ax))"

subsection \<open>\<^verbatim>\<open>plot_sample\<close>\<close>

text \<open>
  The body of the loop over
  \<^verbatim>\<open>zip(self.samples.columns, self.markers[1:], self.colors[1:])\<close>, with the list
  \<^verbatim>\<open>stds\<close> it appends to.
\<close>

fun plot_loop ::
  "diagram \<Rightarrow> num list \<Rightarrow> (string \<times> string \<times> string) list \<Rightarrow> (diagram \<times> num list) result"
where
  "plot_loop self stds [] = Inr (self, stds)"
| "plot_loop self stds ((col, m, c) # rest) =
     (case getitem (samples self) col of
        Inl e \<Rightarrow> Inl (e, self)
      | Inr y \<Rightarrow>
          let (t, s) = calc_loc self (ref self) y
          in (case plot_marker self t s m c of
                Inl e \<Rightarrow> Inl (e, self)
              | Inr p0 \<Rightarrow>
                  let p = p0\<lparr>label := col\<rparr>;
                      self1 = draw [PlotPoint p] self;
                      self2 = self1\<lparr>points := points self1 @ [p]\<rparr>
                  in plot_loop self2 (stds @ [s]) rest))"

definition plot_sample :: "diagram \<Rightarrow> diagram result" where
  "plot_sample self =
     (case plot_loop self []
             (zip (columns (samples self)) (zip (drop 1 (markers self)) (drop 1 (colors self)))) of
        Inl f \<Rightarrow> Inl f
      | Inr (self1, stds) \<Rightarrow>
          (case py_max stds of
             Inl e \<Rightarrow> Inl (e, self1)
           | Inr m \<Rightarrow> Inr (draw [SetXlim m] self1)))"

subsection \<open>The constructor\<close>

definition default_markers :: "string list" where
  "default_markers = concat (replicate 100 [''o'', ''o'', ''s'', ''v'', ''o'', ''s'', ''v''])"

definition default_colors :: "string list" where
  "default_colors =
     [''tab:blue'', ''tab:red'', ''tab:red'', ''tab:red'', ''tab:green'', ''tab:green'',
      ''tab:green'', ''#1abc9c'', ''#2ecc71'', ''#3498db'', ''#9b59b6'', ''#34495e'']"

text \<open>
  \<^verbatim>\<open>x if x else d\<close> and \<^verbatim>\<open>x or d\<close> on an optional list: the default replaces both
  \<^verbatim>\<open>None\<close> and the empty list.
\<close>

definition or_default :: "'a list option \<Rightarrow> 'a list \<Rightarrow> 'a list" where
  "or_default x d = (case x of None \<Rightarrow> d | Some xs \<Rightarrow> if xs = [] then d else xs)"

definition init ::
  "bounds \<Rightarrow> series \<Rightarrow> frame \<Rightarrow> bool \<Rightarrow> string list option \<Rightarrow> string list option \<Rightarrow>
   real \<Rightarrow> real \<Rightarrow> (string \<times> string) list option \<Rightarrow> diagram"
where
  "init ax ref' samples' Normalize' markers' colors' scale' ms' pkwargs' =
     \<lparr>points = [],
      Normalize = Normalize',
      pkwargs = or_default pkwargs' [],
      markers = or_default markers' default_markers,
      colors = or_default colors' default_colors,
      ms = ms',
      ref = ref',
      scale = scale',
      samples = samples',
      fig = [],
      raw_refstd = NaN, stdmax = NaN, Smax = NaN, refstd = NaN\<rparr>"

definition TaylorDiagram ::
  "bounds \<Rightarrow> series \<Rightarrow> frame \<Rightarrow> bool \<Rightarrow> string list option \<Rightarrow> string list option \<Rightarrow>
   real \<Rightarrow> real \<Rightarrow> (string \<times> string) list option \<Rightarrow> diagram result"
where
  "TaylorDiagram ax ref' samples' Normalize' markers' colors' scale' ms' pkwargs' =
     (case step_up (init ax ref' samples' Normalize' markers' colors' scale' ms' pkwargs') ax of
        Inl f \<Rightarrow> Inl f
      | Inr self1 \<Rightarrow> plot_sample self1)"

section \<open>Notions used in the statements\<close>

definition sd :: "real list \<Rightarrow> real" where
  "sd xs = sqrt (sdev xs xs / real (length xs - 1))"

definition kw_ok :: "(string \<times> string) list \<Rightarrow> bool" where
  "kw_ok kw = (\<forall>k \<in> set (map fst kw). k \<notin> set plot_keywords)"

definition sample_point :: "diagram \<Rightarrow> (string \<times> real list) \<times> string \<times> string \<Rightarrow> point" where
  "sample_point s = (\<lambda>((col, v), m, c).
     \<lparr>theta = fst (calc_loc s (ref s) \<lparr>name = col, vals = v\<rparr>),
      radius = snd (calc_loc s (ref s) \<lparr>name = col, vals = v\<rparr>),
      linestyle = '''', marker = m, color = c, markersize = ms s, alpha = 0.5,
      kwargs = pkwargs s, label = col, clip_on = True\<rparr>)"

definition ref_point :: "diagram \<Rightarrow> point" where
  "ref_point s =
     \<lparr>theta = Fin 0, radius = refstd s, linestyle = '''', marker = markers s ! 0,
      color = colors s ! 0, markersize = ms s, alpha = 0.5, kwargs = pkwargs s,
      label = name (ref s), clip_on = False\<rparr>"

definition with_stats :: "diagram \<Rightarrow> num \<Rightarrow> diagram" where
  "with_stats s m =
     s\<lparr>raw_refstd := std (vals (ref s)),
       stdmax := m,
       Smax := num_mul (if Normalize s then Fin 1 else m) (Fin (scale s)),
       refstd := (if Normalize s then Fin 1 else std (vals (ref s)))\<rparr>"

definition frame_artists :: "diagram \<Rightarrow> bounds \<Rightarrow> artist list" where
  "frame_artists w ax =
     [AxisOff, AddAxes ax (make_grid_helper w)] @ axis_calls @
     [Grid, std_arc w, rms_contour w, CLabel, PlotPoint (ref_point w)]"

definition outcome :: "diagram result \<Rightarrow> diagram" where
  "outcome res = (case res of Inl (e, d) \<Rightarrow> d | Inr d \<Rightarrow> d)"

definition sample_styles :: "diagram \<Rightarrow> ((string \<times> real list) \<times> string \<times> string) list" where
  "sample_styles s = zip (samples s) (zip (drop 1 (markers s)) (drop 1 (colors s)))"

text \<open>The object at the end of a run of the constructor, in terms of its own fields.\<close>

definition built :: "diagram \<Rightarrow> bounds \<Rightarrow> bool" where
  "built d ax \<longleftrightarrow>
     points d = ref_point d # map (sample_point d) (sample_styles d) \<and>
     (\<exists>tail. fig d = frame_artists d ax
                @ map (\<lambda>t. PlotPoint (sample_point d t)) (sample_styles d) @ tail \<and>
        (case py_max (map (\<lambda>t. radius (sample_point d t)) (sample_styles d)) of
           Inl e \<Rightarrow> tail = []
         | Inr mx \<Rightarrow> tail = [SetXlim mx]))"

text \<open>The markers on a figure, in the order in which they were drawn.\<close>

fun plotted :: "artist list \<Rightarrow> point list" where
  "plotted [] = []"
| "plotted (PlotPoint p # as) = p # plotted as"
| "plotted (a # as) = plotted as"

text \<open>What \<^verbatim>\<open>step_up\<close> draws before the reference point: the frame and the contours.\<close>

definition frame_only :: "diagram \<Rightarrow> bounds \<Rightarrow> artist list" where
  "frame_only w ax =
     [AxisOff, AddAxes ax (make_grid_helper w)] @ axis_calls @
     [Grid, std_arc w, rms_contour w, CLabel]"

section \<open>The run of the constructor\<close>

lemma std_Fin: "2 \<le> length xs \<Longrightarrow> std xs = Fin (sd xs)"
  by (simp add: std_def sd_def)

lemma getitem_member:
  "distinct (map fst df) \<Longrightarrow> (c, v) \<in> set df \<Longrightarrow> getitem df c = Inr \<lparr>name = c, vals = v\<rparr>"
  by (simp add: getitem_def)

lemma col_stds_sub:
  "distinct (map fst df) \<Longrightarrow> set ps \<subseteq> set df \<Longrightarrow>
   col_stds df (map fst ps) = Inr (map (\<lambda>p. std (snd p)) ps)"
proof (induction ps)
  case Nil
  then show ?case by simp
next
  case (Cons p ps)
  obtain c v where p: "p = (c, v)" by (cases p)
  with Cons.prems have "getitem df c = Inr \<lparr>name = c, vals = v\<rparr>"
    by (simp add: getitem_member)
  with Cons p show ?case by simp
qed

lemma col_stds_columns:
  "distinct (columns df) \<Longrightarrow> col_stds df (columns df) = Inr (map (\<lambda>p. std (snd p)) df)"
  unfolding columns_def by (rule col_stds_sub) simp_all

lemma py_max_snoc: "py_max (xs @ [x]) = Inr (projr (py_max (xs @ [x])))"
  by (cases xs) simp_all

lemma foldl_max_Fin:
  "foldl (\<lambda>m y. if num_gt y m then y else m) (Fin a) (map Fin bs) = Fin (Max (set (a # bs)))"
proof (induction bs arbitrary: a)
  case Nil
  then show ?case by simp
next
  case (Cons b bs)
  have "Max (insert a (insert b (set bs))) = Max (insert (max a b) (set bs))"
    by (cases "bs = []") (simp_all add: max.assoc)
  with Cons[of "if a < b then b else a"] show ?case
    by (auto simp: max_def)
qed

lemma py_max_Fin: "bs \<noteq> [] \<Longrightarrow> py_max (map Fin bs) = Inr (Fin (Max (set bs)))"
  by (cases bs) (simp_all add: foldl_max_Fin)

lemma plot_marker_ok:
  "kw_ok (pkwargs s) \<Longrightarrow>
   plot_marker s t r m c =
     Inr \<lparr>theta = t, radius = r, linestyle = '''', marker = m, color = c,
          markersize = ms s, alpha = 0.5, kwargs = pkwargs s, label = '''', clip_on = True\<rparr>"
  by (auto simp: plot_marker_def kw_ok_def)

lemma plot_marker_bad:
  "\<not> kw_ok (pkwargs s) \<Longrightarrow> plot_marker s t r m c = Inl TypeError"
  by (auto simp: plot_marker_def kw_ok_def)

lemma calc_loc_eq:
  "calc_loc s x y =
     (num_arccos (corr (vals x) (vals y)),
      if Normalize s then num_div (std (vals y)) (raw_refstd s) else std (vals y))"
  by (simp add: calc_loc_def Let_def)

lemma sample_point_upd [simp]:
  "sample_point (s\<lparr>fig := f, points := p\<rparr>) = sample_point s"
  by (simp add: sample_point_def calc_loc_eq fun_eq_iff)

lemma plot_loop_ok:
  assumes "distinct (map fst (samples s))" "kw_ok (pkwargs s)"
  shows "fst ` set ts \<subseteq> set (samples s) \<Longrightarrow>
     plot_loop s stds (map (\<lambda>(p, m, c). (fst p, m, c)) ts) =
       Inr (s\<lparr>fig := fig s @ map (\<lambda>t. PlotPoint (sample_point s t)) ts,
               points := points s @ map (sample_point s) ts\<rparr>,
            stds @ map (\<lambda>t. radius (sample_point s t)) ts)"
  using assms
proof (induction ts arbitrary: s stds)
  case Nil
  then show ?case by simp
next
  case (Cons t ts)
  obtain col v m c where t: "t = ((col, v), m, c)" by (cases t) auto
  let ?p = "sample_point s t"
  let ?s2 = "s\<lparr>fig := fig s @ [PlotPoint ?p], points := points s @ [?p]\<rparr>"
  from Cons.prems t have g: "getitem (samples s) col = Inr \<lparr>name = col, vals = v\<rparr>"
    by (simp add: getitem_member)
  have step: "plot_loop s stds (map (\<lambda>(p, m, c). (fst p, m, c)) (t # ts)) =
      plot_loop ?s2 (stds @ [radius ?p]) (map (\<lambda>(p, m, c). (fst p, m, c)) ts)"
    using Cons.prems(3) g
    by (simp add: t plot_marker_ok draw_def sample_point_def split_beta Let_def)
  have "plot_loop ?s2 (stds @ [radius ?p]) (map (\<lambda>(p, m, c). (fst p, m, c)) ts) =
       Inr (?s2\<lparr>fig := fig ?s2 @ map (\<lambda>t. PlotPoint (sample_point ?s2 t)) ts,
               points := points ?s2 @ map (sample_point ?s2) ts\<rparr>,
            (stds @ [radius ?p]) @ map (\<lambda>t. radius (sample_point ?s2 t)) ts)"
    using Cons.prems by (intro Cons.IH) simp_all
  with step show ?case by simp
qed

lemma zip_columns:
  "zip (columns df) z = map (\<lambda>(p, m, c). (fst p, m, c)) (zip df z)"
  by (induction df arbitrary: z) (auto simp: columns_def split: list.splits prod.splits, (case_tac z; auto)+)

lemma plot_sample_eq:
  assumes "distinct (columns (samples s))" "kw_ok (pkwargs s)"
  shows "plot_sample s =
     (let ts = zip (samples s) (zip (drop 1 (markers s)) (drop 1 (colors s)));
          s1 = s\<lparr>fig := fig s @ map (\<lambda>t. PlotPoint (sample_point s t)) ts,
                 points := points s @ map (sample_point s) ts\<rparr>
      in case py_max (map (\<lambda>t. radius (sample_point s t)) ts) of
           Inl e \<Rightarrow> Inl (e, s1)
         | Inr m \<Rightarrow> Inr (draw [SetXlim m] s1))"
proof -
  let ?ts = "zip (samples s) (zip (drop 1 (markers s)) (drop 1 (colors s)))"
  have sub: "fst ` set ?ts \<subseteq> set (samples s)"
    by (auto dest: set_zip_leftD)
  have d: "distinct (map fst (samples s))"
    using assms(1) by (simp add: columns_def)
  have pl: "plot_loop s [] (zip (columns (samples s))
               (zip (drop 1 (markers s)) (drop 1 (colors s)))) =
       Inr (s\<lparr>fig := fig s @ map (\<lambda>t. PlotPoint (sample_point s t)) ?ts,
               points := points s @ map (sample_point s) ?ts\<rparr>,
            [] @ map (\<lambda>t. radius (sample_point s t)) ?ts)"
    unfolding zip_columns by (rule plot_loop_ok[OF d assms(2) sub])
  show ?thesis
    unfolding plot_sample_def pl by (simp add: Let_def)
qed

lemma step_up_stats_ok:
  assumes "distinct (columns (samples s))"
  obtains m where
    "py_max (map (\<lambda>p. std (snd p)) (samples s) @ [std (vals (ref s))]) = Inr m"
    "step_up_stats s =
       Inr (s\<lparr>fig := fig s @ [AxisOff],
              raw_refstd := std (vals (ref s)),
              stdmax := m,
              Smax := num_mul (if Normalize s then Fin 1 else m) (Fin (scale s)),
              refstd := (if Normalize s then Fin 1 else std (vals (ref s)))\<rparr>)"
proof -
  let ?l = "map (\<lambda>p. std (snd p)) (samples s) @ [std (vals (ref s))]"
  obtain m where m: "py_max ?l = Inr m"
    using py_max_snoc by blast
  have "step_up_stats s =
       Inr (s\<lparr>fig := fig s @ [AxisOff],
              raw_refstd := std (vals (ref s)),
              stdmax := m,
              Smax := num_mul (if Normalize s then Fin 1 else m) (Fin (scale s)),
              refstd := (if Normalize s then Fin 1 else std (vals (ref s)))\<rparr>)"
    using m assms by (simp add: step_up_stats_def draw_def Let_def col_stds_columns)
  with m show ?thesis by (rule that)
qed

lemma step_up_ref_ok:
  assumes "markers s \<noteq> []" "colors s \<noteq> []" "kw_ok (pkwargs s)"
  shows "step_up_ref s =
     Inr (s\<lparr>fig := fig s @ [PlotPoint (ref_point s)], points := points s @ [ref_point s]\<rparr>)"
  using assms
  by (simp add: step_up_ref_def py_index_def plot_marker_ok draw_def ref_point_def Let_def)

lemma upd_invariant [simp]:
  "make_grid_helper (s\<lparr>fig := f\<rparr>) = make_grid_helper s"
  "std_arc (s\<lparr>fig := f\<rparr>) = std_arc s"
  "rms_contour (s\<lparr>fig := f\<rparr>) = rms_contour s"
  "ref_point (s\<lparr>fig := f\<rparr>) = ref_point s"
  "make_grid_helper (s\<lparr>points := p\<rparr>) = make_grid_helper s"
  "std_arc (s\<lparr>points := p\<rparr>) = std_arc s"
  "rms_contour (s\<lparr>points := p\<rparr>) = rms_contour s"
  "ref_point (s\<lparr>points := p\<rparr>) = ref_point s"
  unfolding make_grid_helper_def Slocs_def std_arc_def rms_contour_def ref_point_def
  by simp_all

lemma sample_point_upd1 [simp]:
  "sample_point (s\<lparr>fig := f\<rparr>) = sample_point s"
  "sample_point (s\<lparr>points := p\<rparr>) = sample_point s"
  by (simp_all add: sample_point_def calc_loc_eq fun_eq_iff)

lemma with_stats_fields [simp]:
  "points (with_stats s m) = points s"
  "fig (with_stats s m) = fig s"
  "Normalize (with_stats s m) = Normalize s"
  "pkwargs (with_stats s m) = pkwargs s"
  "markers (with_stats s m) = markers s"
  "colors (with_stats s m) = colors s"
  "ms (with_stats s m) = ms s"
  "ref (with_stats s m) = ref s"
  "scale (with_stats s m) = scale s"
  "samples (with_stats s m) = samples s"
  "raw_refstd (with_stats s m) = std (vals (ref s))"
  "stdmax (with_stats s m) = m"
  "Smax (with_stats s m) = num_mul (if Normalize s then Fin 1 else m) (Fin (scale s))"
  "refstd (with_stats s m) = (if Normalize s then Fin 1 else std (vals (ref s)))"
  by (simp_all add: with_stats_def)

lemma step_up_frame_eq:
  "step_up_frame s ax =
     s\<lparr>fig := fig s @ [AddAxes ax (make_grid_helper s)] @ axis_calls @
        [Grid, std_arc s, rms_contour s, CLabel]\<rparr>"
  by (simp add: step_up_frame_def draw_def)

lemma step_up_eq:
  assumes "distinct (columns (samples s))" "markers s \<noteq> []" "colors s \<noteq> []"
    "kw_ok (pkwargs s)"
  obtains m where
    "py_max (map (\<lambda>p. std (snd p)) (samples s) @ [std (vals (ref s))]) = Inr m"
    "step_up s ax =
       Inr ((with_stats s m)\<lparr>fig := fig s @ frame_artists (with_stats s m) ax,
                              points := points s @ [ref_point (with_stats s m)]\<rparr>)"
proof -
  from step_up_stats_ok[OF assms(1)] obtain m where
    m: "py_max (map (\<lambda>p. std (snd p)) (samples s) @ [std (vals (ref s))]) = Inr m"
    and st0: "step_up_stats s =
       Inr (s\<lparr>fig := fig s @ [AxisOff],
              raw_refstd := std (vals (ref s)),
              stdmax := m,
              Smax := num_mul (if Normalize s then Fin 1 else m) (Fin (scale s)),
              refstd := (if Normalize s then Fin 1 else std (vals (ref s)))\<rparr>)"
    by blast
  define w where "w = with_stats s m"
  have st: "step_up_stats s = Inr (w\<lparr>fig := fig s @ [AxisOff]\<rparr>)"
    unfolding st0 w_def with_stats_def by simp
  define s2 where "s2 = step_up_frame (w\<lparr>fig := fig s @ [AxisOff]\<rparr>) ax"
  have s2: "s2 = w\<lparr>fig := fig s @ [AxisOff, AddAxes ax (make_grid_helper w)] @ axis_calls @
       [Grid, std_arc w, rms_contour w, CLabel]\<rparr>"
    unfolding s2_def step_up_frame_eq by simp
  have f: "markers s2 = markers s" "colors s2 = colors s" "pkwargs s2 = pkwargs s"
    "points s2 = points s"
    unfolding s2 w_def by simp_all
  have "step_up s ax = step_up_ref s2"
    by (simp add: step_up_def st s2_def)
  also have "\<dots> = Inr (s2\<lparr>fig := fig s2 @ [PlotPoint (ref_point s2)],
                            points := points s2 @ [ref_point s2]\<rparr>)"
    using assms f by (intro step_up_ref_ok) simp_all
  also have "\<dots> = Inr (w\<lparr>fig := fig s @ frame_artists w ax,
                              points := points s @ [ref_point w]\<rparr>)"
    unfolding s2 w_def by (simp add: frame_artists_def)
  finally show ?thesis using m that unfolding w_def by blast
qed

lemma outcome_simps [simp]: "outcome (Inl (e, d)) = d" "outcome (Inr d) = d"
  by (simp_all add: outcome_def)

lemma upd_invariant2 [simp]:
  "sample_styles (s\<lparr>fig := f\<rparr>) = sample_styles s"
  "sample_styles (s\<lparr>points := p\<rparr>) = sample_styles s"
  "frame_artists (s\<lparr>fig := f\<rparr>) ax = frame_artists s ax"
  "frame_artists (s\<lparr>points := p\<rparr>) ax = frame_artists s ax"
  by (simp_all add: sample_styles_def frame_artists_def)

lemma or_default_nonempty: "d \<noteq> [] \<Longrightarrow> or_default x d \<noteq> []"
  by (simp add: or_default_def split: option.splits)

lemma default_markers_nonempty: "default_markers \<noteq> []"
  by (simp add: default_markers_def)

lemma default_colors_nonempty: "default_colors \<noteq> []"
  by (simp add: default_colors_def)

lemma init_fields [simp]:
  "points (init ax r df N mk cl sc msz pk) = []"
  "Normalize (init ax r df N mk cl sc msz pk) = N"
  "pkwargs (init ax r df N mk cl sc msz pk) = or_default pk []"
  "markers (init ax r df N mk cl sc msz pk) = or_default mk default_markers"
  "colors (init ax r df N mk cl sc msz pk) = or_default cl default_colors"
  "ms (init ax r df N mk cl sc msz pk) = msz"
  "ref (init ax r df N mk cl sc msz pk) = r"
  "scale (init ax r df N mk cl sc msz pk) = sc"
  "samples (init ax r df N mk cl sc msz pk) = df"
  "fig (init ax r df N mk cl sc msz pk) = []"
  by (simp_all add: init_def)

lemma TaylorDiagram_eq:
  assumes "distinct (columns df)" "kw_ok (or_default pk [])"
  obtains m d where
    "py_max (map (\<lambda>p. std (snd p)) df @ [std (vals r)]) = Inr m"
    "TaylorDiagram ax r df N mk cl sc msz pk =
       (case py_max (map (\<lambda>t. radius (sample_point d t)) (sample_styles d)) of
          Inl e \<Rightarrow> Inl (e, d) | Inr mx \<Rightarrow> Inr d)"
    "built d ax"
    "Normalize d = N" "pkwargs d = or_default pk []"
    "markers d = or_default mk default_markers" "colors d = or_default cl default_colors"
    "ms d = msz" "ref d = r" "scale d = sc" "samples d = df"
    "raw_refstd d = std (vals r)" "stdmax d = m"
    "Smax d = num_mul (if N then Fin 1 else m) (Fin sc)"
    "refstd d = (if N then Fin 1 else std (vals r))"
proof -
  define s where "s = init ax r df N mk cl sc msz pk"
  have s: "distinct (columns (samples s))" "markers s \<noteq> []" "colors s \<noteq> []"
    "kw_ok (pkwargs s)"
    using assms unfolding s_def
    by (simp_all add: or_default_nonempty default_markers_nonempty default_colors_nonempty)
  from step_up_eq[OF s, of ax] obtain m where
    m: "py_max (map (\<lambda>p. std (snd p)) (samples s) @ [std (vals (ref s))]) = Inr m"
    and su: "step_up s ax =
       Inr ((with_stats s m)\<lparr>fig := fig s @ frame_artists (with_stats s m) ax,
                              points := points s @ [ref_point (with_stats s m)]\<rparr>)"
    by blast
  define w where "w = with_stats s m"
  define s3 where "s3 = w\<lparr>fig := frame_artists w ax, points := [ref_point w]\<rparr>"
  have su': "step_up s ax = Inr s3"
    unfolding su s3_def w_def by (simp add: s_def)
  have s3: "distinct (columns (samples s3))" "kw_ok (pkwargs s3)"
    using s unfolding s3_def w_def by simp_all
  define ts where "ts = sample_styles s3"
  define d0 where "d0 = s3\<lparr>fig := fig s3 @ map (\<lambda>t. PlotPoint (sample_point s3 t)) ts,
                 points := points s3 @ map (sample_point s3) ts\<rparr>"
  have ps: "plot_sample s3 =
      (case py_max (map (\<lambda>t. radius (sample_point s3 t)) ts) of
           Inl e \<Rightarrow> Inl (e, d0)
         | Inr mx \<Rightarrow> Inr (draw [SetXlim mx] d0))"
    unfolding plot_sample_eq[OF s3] ts_def d0_def sample_styles_def Let_def by simp
  define d where "d = outcome (plot_sample s3)"
  have d_eq: "d = (case py_max (map (\<lambda>t. radius (sample_point s3 t)) ts) of
           Inl e \<Rightarrow> d0 | Inr mx \<Rightarrow> d0\<lparr>fig := fig d0 @ [SetXlim mx]\<rparr>)"
    unfolding d_def ps by (simp add: draw_def split: sum.splits)
  have inv0: "sample_point d = sample_point s3" "sample_styles d = ts"
    "ref_point d = ref_point s3" "frame_artists d ax = frame_artists s3 ax"
    unfolding d_eq d0_def ts_def by (simp_all split: sum.splits)
  have inv1: "sample_point s3 = sample_point w" "ref_point s3 = ref_point w"
    "frame_artists s3 ax = frame_artists w ax" "fig s3 = frame_artists w ax"
    "points s3 = [ref_point w]"
    unfolding s3_def by simp_all
  note inv = inv0[unfolded inv1]
  have T: "TaylorDiagram ax r df N mk cl sc msz pk = plot_sample s3"
    unfolding TaylorDiagram_def s_def[symmetric] su' by simp
  have res: "TaylorDiagram ax r df N mk cl sc msz pk =
       (case py_max (map (\<lambda>t. radius (sample_point d t)) (sample_styles d)) of
          Inl e \<Rightarrow> Inl (e, d) | Inr mx \<Rightarrow> Inr d)"
    unfolding inv0 T ps unfolding d_eq by (simp add: draw_def split: sum.splits)
  have b: "built d ax"
    unfolding built_def inv unfolding d_eq d0_def inv1
    by (simp split: sum.splits)
  have flds: "Normalize d = N" "pkwargs d = or_default pk []"
    "markers d = or_default mk default_markers" "colors d = or_default cl default_colors"
    "ms d = msz" "ref d = r" "scale d = sc" "samples d = df"
    "raw_refstd d = std (vals r)" "stdmax d = m"
    "Smax d = num_mul (if N then Fin 1 else m) (Fin sc)"
    "refstd d = (if N then Fin 1 else std (vals r))"
    unfolding d_eq d0_def s3_def w_def
    by (simp_all add: s_def split: sum.splits)
  from m have m': "py_max (map (\<lambda>p. std (snd p)) df @ [std (vals r)]) = Inr m"
    by (simp add: s_def)
  show ?thesis
    by (rule that[OF m' res b flds])
qed

lemma length_sample_styles:
  "length (sample_styles d) =
     min (length (samples d)) (min (length (markers d) - 1) (length (colors d) - 1))"
  by (simp add: sample_styles_def)

lemma nth_sample_styles:
  "i < length (sample_styles d) \<Longrightarrow>
   sample_styles d ! i = (samples d ! i, markers d ! Suc i, colors d ! Suc i)"
  by (auto simp: sample_styles_def nth_drop)

lemma sample_point_fields [simp]:
  "label (sample_point d ((col, v), m, c)) = col"
  "marker (sample_point d ((col, v), m, c)) = m"
  "color (sample_point d ((col, v), m, c)) = c"
  "theta (sample_point d ((col, v), m, c)) = fst (calc_loc d (ref d) \<lparr>name = col, vals = v\<rparr>)"
  "radius (sample_point d ((col, v), m, c)) = snd (calc_loc d (ref d) \<lparr>name = col, vals = v\<rparr>)"
  by (simp_all add: sample_point_def)

lemma ref_point_fields [simp]:
  "theta (ref_point d) = Fin 0"
  "radius (ref_point d) = refstd d"
  "label (ref_point d) = name (ref d)"
  "marker (ref_point d) = markers d ! 0"
  "color (ref_point d) = colors d ! 0"
  by (simp_all add: ref_point_def)

lemma labels_sample_styles:
  "map (\<lambda>t. label (sample_point d t)) (sample_styles d) =
     take (length (sample_styles d)) (columns (samples d))"
proof -
  have "map (\<lambda>t. label (sample_point d t)) (zip df z) = take (length z) (map fst df)" for df z
  proof (induction df arbitrary: z)
    case Nil
    then show ?case by simp
  next
    case (Cons p df)
    then show ?case by (cases z; cases p) auto
  qed
  then show ?thesis
    by (simp add: sample_styles_def columns_def take_map min_def)
qed

lemma py_max_nonempty: "xs \<noteq> [] \<Longrightarrow> \<exists>m. py_max xs = Inr m"
  by (cases xs) simp_all

lemma py_max_empty_iff: "(\<exists>e. py_max xs = Inl e) \<longleftrightarrow> xs = []"
  by (cases xs) simp_all

text \<open>What the constructor returns, by the number of sample points it draws.\<close>

lemma TaylorDiagram_outcome:
  fixes ax r df N mk cl sc msz pk
  assumes "distinct (columns df)" "kw_ok (or_default pk [])"
  defines "d \<equiv> outcome (TaylorDiagram ax r df N mk cl sc msz pk)"
  shows "built d ax"
    "Normalize d = N" "pkwargs d = or_default pk []"
    "markers d = or_default mk default_markers" "colors d = or_default cl default_colors"
    "ms d = msz" "ref d = r" "scale d = sc" "samples d = df"
    "raw_refstd d = std (vals r)"
    "refstd d = (if N then Fin 1 else std (vals r))"
    "\<exists>m. py_max (map (\<lambda>p. std (snd p)) df @ [std (vals r)]) = Inr m \<and> stdmax d = m \<and>
       Smax d = num_mul (if N then Fin 1 else m) (Fin sc)"
    "TaylorDiagram ax r df N mk cl sc msz pk =
       (if sample_styles d = [] then Inl (ValueError, d) else Inr d)"
proof -
  from TaylorDiagram_eq[OF assms(1,2), of r ax N mk cl sc msz] obtain m d' where
    m: "py_max (map (\<lambda>p. std (snd p)) df @ [std (vals r)]) = Inr m"
    and T: "TaylorDiagram ax r df N mk cl sc msz pk =
       (case py_max (map (\<lambda>t. radius (sample_point d' t)) (sample_styles d')) of
          Inl e \<Rightarrow> Inl (e, d') | Inr mx \<Rightarrow> Inr d')"
    and b: "built d' ax"
    and f: "Normalize d' = N" "pkwargs d' = or_default pk []"
    "markers d' = or_default mk default_markers" "colors d' = or_default cl default_colors"
    "ms d' = msz" "ref d' = r" "scale d' = sc" "samples d' = df"
    "raw_refstd d' = std (vals r)" "stdmax d' = m"
    "Smax d' = num_mul (if N then Fin 1 else m) (Fin sc)"
    "refstd d' = (if N then Fin 1 else std (vals r))"
    by blast
  have d: "d = d'"
    unfolding d_def T by (simp split: sum.splits)
  show "built d ax" "Normalize d = N" "pkwargs d = or_default pk []"
    "markers d = or_default mk default_markers" "colors d = or_default cl default_colors"
    "ms d = msz" "ref d = r" "scale d = sc" "samples d = df"
    "raw_refstd d = std (vals r)"
    "refstd d = (if N then Fin 1 else std (vals r))"
    using b f unfolding d by simp_all
  show "\<exists>m. py_max (map (\<lambda>p. std (snd p)) df @ [std (vals r)]) = Inr m \<and> stdmax d = m \<and>
       Smax d = num_mul (if N then Fin 1 else m) (Fin sc)"
    using m f unfolding d by blast
  show "TaylorDiagram ax r df N mk cl sc msz pk =
       (if sample_styles d = [] then Inl (ValueError, d) else Inr d)"
  proof (cases "sample_styles d' = []")
    case True
    then show ?thesis unfolding d T by simp
  next
    case False
    then obtain mx where "py_max (map (\<lambda>t. radius (sample_point d' t)) (sample_styles d')) = Inr mx"
      using py_max_nonempty[of "map (\<lambda>t. radius (sample_point d' t)) (sample_styles d')"] by auto
    with False show ?thesis unfolding d T by simp
  qed
qed

lemma kw_ok_None: "kw_ok (or_default None [])"
  by (simp add: kw_ok_def or_default_def)

lemma built_points: "built d ax \<Longrightarrow> points d = ref_point d # map (sample_point d) (sample_styles d)"
  by (simp add: built_def)

lemma built_fig_empty:
  "built d ax \<Longrightarrow> sample_styles d = [] \<Longrightarrow> fig d = frame_artists d ax"
  by (auto simp: built_def)

lemma plotted_append: "plotted (as @ bs) = plotted as @ plotted bs"
  by (induction as rule: plotted.induct) simp_all

lemma plotted_map_PlotPoint: "plotted (map (\<lambda>t. PlotPoint (f t)) ts) = map f ts"
  by (induction ts) simp_all

lemma plotted_frame_only: "plotted (frame_only w ax) = []"
  by (simp add: frame_only_def axis_calls_def std_arc_def rms_contour_def Let_def split_beta)

lemma frame_artists_eq: "frame_artists w ax = frame_only w ax @ [PlotPoint (ref_point w)]"
  by (simp add: frame_artists_def frame_only_def)

lemma length_frame_only: "length (frame_only w ax) = 20"
  by (simp add: frame_only_def axis_calls_def)

lemma built_plotted:
  assumes "built d ax"
  shows "plotted (fig d) = points d"
proof -
  from assms obtain tail where
    p: "points d = ref_point d # map (sample_point d) (sample_styles d)"
    and f: "fig d = frame_artists d ax
                @ map (\<lambda>t. PlotPoint (sample_point d t)) (sample_styles d) @ tail"
    and t: "tail = [] \<or> (\<exists>mx. tail = [SetXlim mx])"
    unfolding built_def
    by (cases "py_max (map (\<lambda>t. radius (sample_point d t)) (sample_styles d))") auto
  from t have "plotted tail = []" by auto
  then show ?thesis
    unfolding p f
    by (simp add: frame_artists_eq plotted_append plotted_frame_only plotted_map_PlotPoint)
qed

lemma built_frame: "built d ax \<Longrightarrow> take 20 (fig d) = frame_only d ax"
  by (auto simp: built_def frame_artists_eq length_frame_only)

lemma frame_only_upd [simp]:
  "frame_only (s\<lparr>fig := f\<rparr>) ax = frame_only s ax"
  "frame_only (s\<lparr>points := p\<rparr>) ax = frame_only s ax"
  by (simp_all add: frame_only_def)

text \<open>A style override that repeats a keyword stops the constructor at the reference point.\<close>

lemma TaylorDiagram_bad_kw:
  fixes ax r df N mk cl sc msz pk
  assumes "distinct (columns df)" "\<not> kw_ok (or_default pk [])"
  defines "d \<equiv> outcome (TaylorDiagram ax r df N mk cl sc msz pk)"
  shows "TaylorDiagram ax r df N mk cl sc msz pk = Inl (TypeError, d)"
    "points d = []" "fig d = frame_only d ax"
    "Normalize d = N" "ref d = r" "scale d = sc" "samples d = df"
    "raw_refstd d = std (vals r)"
    "refstd d = (if N then Fin 1 else std (vals r))"
    "\<exists>m. py_max (map (\<lambda>p. std (snd p)) df @ [std (vals r)]) = Inr m \<and> stdmax d = m \<and>
       Smax d = num_mul (if N then Fin 1 else m) (Fin sc)"
proof -
  define s where "s = init ax r df N mk cl sc msz pk"
  have s: "distinct (columns (samples s))" "markers s \<noteq> []" "colors s \<noteq> []"
    "\<not> kw_ok (pkwargs s)"
    using assms unfolding s_def
    by (simp_all add: or_default_nonempty default_markers_nonempty default_colors_nonempty)
  from step_up_stats_ok[OF s(1)] obtain m where
    m: "py_max (map (\<lambda>p. std (snd p)) (samples s) @ [std (vals (ref s))]) = Inr m"
    and st0: "step_up_stats s =
       Inr (s\<lparr>fig := fig s @ [AxisOff],
              raw_refstd := std (vals (ref s)),
              stdmax := m,
              Smax := num_mul (if Normalize s then Fin 1 else m) (Fin (scale s)),
              refstd := (if Normalize s then Fin 1 else std (vals (ref s)))\<rparr>)"
    by blast
  define w where "w = with_stats s m"
  have st: "step_up_stats s = Inr (w\<lparr>fig := fig s @ [AxisOff]\<rparr>)"
    unfolding st0 w_def with_stats_def by simp
  define s2 where "s2 = step_up_frame (w\<lparr>fig := fig s @ [AxisOff]\<rparr>) ax"
  have s2: "s2 = w\<lparr>fig := frame_only w ax\<rparr>"
    unfolding s2_def step_up_frame_eq frame_only_def by (simp add: s_def)
  have f: "markers s2 = markers s" "colors s2 = colors s" "pkwargs s2 = pkwargs s"
    unfolding s2 w_def by simp_all
  have "step_up s ax = step_up_ref s2"
    by (simp add: step_up_def st s2_def)
  also have "\<dots> = Inl (TypeError, s2)"
    using s f by (simp add: step_up_ref_def py_index_def plot_marker_bad)
  finally have su: "step_up s ax = Inl (TypeError, s2)" .
  have T: "TaylorDiagram ax r df N mk cl sc msz pk = Inl (TypeError, s2)"
    unfolding TaylorDiagram_def s_def[symmetric] su by simp
  have d: "d = s2"
    unfolding d_def T by simp
  show "TaylorDiagram ax r df N mk cl sc msz pk = Inl (TypeError, d)"
    unfolding d by (rule T)
  show "points d = []" "fig d = frame_only d ax"
    "Normalize d = N" "ref d = r" "scale d = sc" "samples d = df"
    "raw_refstd d = std (vals r)"
    "refstd d = (if N then Fin 1 else std (vals r))"
    unfolding d s2 w_def by (simp_all add: s_def)
  have "stdmax d = m" "Smax d = num_mul (if N then Fin 1 else m) (Fin sc)"
    unfolding d s2 w_def by (simp_all add: s_def)
  with m show "\<exists>m. py_max (map (\<lambda>p. std (snd p)) df @ [std (vals r)]) = Inr m \<and> stdmax d = m \<and>
       Smax d = num_mul (if N then Fin 1 else m) (Fin sc)"
    by (simp add: s_def)
qed

text \<open>What holds of the object whether or not the constructor returns.\<close>

lemma TaylorDiagram_frame:
  fixes ax r df N mk cl sc msz pk
  assumes "distinct (columns df)"
  defines "d \<equiv> outcome (TaylorDiagram ax r df N mk cl sc msz pk)"
  shows "take 20 (fig d) = frame_only d ax" "plotted (fig d) = points d"
    "Normalize d = N" "ref d = r" "scale d = sc" "samples d = df"
    "raw_refstd d = std (vals r)"
    "refstd d = (if N then Fin 1 else std (vals r))"
    "\<exists>m. py_max (map (\<lambda>p. std (snd p)) df @ [std (vals r)]) = Inr m \<and> stdmax d = m \<and>
       Smax d = num_mul (if N then Fin 1 else m) (Fin sc)"
proof -
  consider (ok) "kw_ok (or_default pk [])" | (bad) "\<not> kw_ok (or_default pk [])"
    by blast
  then have "take 20 (fig d) = frame_only d ax \<and> plotted (fig d) = points d \<and>
    Normalize d = N \<and> ref d = r \<and> scale d = sc \<and> samples d = df \<and>
    raw_refstd d = std (vals r) \<and>
    refstd d = (if N then Fin 1 else std (vals r)) \<and>
    (\<exists>m. py_max (map (\<lambda>p. std (snd p)) df @ [std (vals r)]) = Inr m \<and> stdmax d = m \<and>
       Smax d = num_mul (if N then Fin 1 else m) (Fin sc))"
  proof cases
    case ok
    note o = TaylorDiagram_outcome[OF assms(1) ok, where ax = ax and r = r and N = N
      and mk = mk and cl = cl and sc = sc and msz = msz, folded d_def]
    from o(2,7,8,9,10,11,12) built_frame[OF o(1)] built_plotted[OF o(1)]
    show ?thesis by blast
  next
    case bad
    note b = TaylorDiagram_bad_kw[OF assms(1) bad, where ax = ax and r = r and N = N
      and mk = mk and cl = cl and sc = sc and msz = msz, folded d_def]
    have "take 20 (fig d) = frame_only d ax"
      unfolding b(3) by (simp add: length_frame_only)
    moreover have "plotted (fig d) = points d"
      unfolding b(2) b(3) by (simp add: plotted_frame_only)
    ultimately show ?thesis
      using b(4-10) by blast
  qed
  then show "take 20 (fig d) = frame_only d ax" "plotted (fig d) = points d"
    "Normalize d = N" "ref d = r" "scale d = sc" "samples d = df"
    "raw_refstd d = std (vals r)"
    "refstd d = (if N then Fin 1 else std (vals r))"
    "\<exists>m. py_max (map (\<lambda>p. std (snd p)) df @ [std (vals r)]) = Inr m \<and> stdmax d = m \<and>
       Smax d = num_mul (if N then Fin 1 else m) (Fin sc)"
    by blast+
qed

lemma length_default_markers: "length default_markers = 700"
  by (simp add: default_markers_def length_concat sum_list_replicate)

lemma length_default_colors: "length default_colors = 12"
  by (simp add: default_colors_def)

lemma or_default_None: "or_default None d = d"
  by (simp add: or_default_def)

lemma corr_constant_self: "sdev x x = 0 \<Longrightarrow> corr x x = NaN"
  by (simp add: corr_def corrcoef_def cov_def Let_def)

lemma points_drawn:
  fixes ax r df N mk cl sc msz pk
  assumes "distinct (columns df)" "kw_ok (or_default pk [])"
  defines "d \<equiv> outcome (TaylorDiagram ax r df N mk cl sc msz pk)"
  defines "k \<equiv> min (length df) (min (length (or_default mk default_markers))
                                     (length (or_default cl default_colors)) - 1)"
  shows "length (points d) = Suc k"
    "points d ! 0 = ref_point d"
    "i < k \<Longrightarrow> points d ! Suc i =
       sample_point d (df ! i, or_default mk default_markers ! Suc i,
                       or_default cl default_colors ! Suc i)"
    "0 < k \<Longrightarrow> TaylorDiagram ax r df N mk cl sc msz pk = Inr d"
    "ref d = r" "refstd d = (if N then Fin 1 else std (vals r))"
proof -
  note o = TaylorDiagram_outcome[OF assms(1,2), where ax = ax and r = r and N = N
      and mk = mk and cl = cl and sc = sc and msz = msz, folded d_def]
  have len: "length (sample_styles d) = k"
    unfolding length_sample_styles o k_def by (simp add: min_def)
  show "length (points d) = Suc k"
    unfolding built_points[OF o(1)] using len by simp
  show "points d ! 0 = ref_point d"
    unfolding built_points[OF o(1)] by simp
  show "points d ! Suc i =
       sample_point d (df ! i, or_default mk default_markers ! Suc i,
                       or_default cl default_colors ! Suc i)" if "i < k"
    unfolding built_points[OF o(1)] using that len nth_sample_styles[of i d] o(4,5,9)
    by simp
  show "TaylorDiagram ax r df N mk cl sc msz pk = Inr d" if "0 < k"
    using o(13) len that by auto
  show "ref d = r" by (rule o(7))
  show "refstd d = (if N then Fin 1 else std (vals r))" by (rule o(11))
qed

section \<open>The claims\<close>

text \<open>
  Claim C10, as amended. With an empty sample collection and style overrides that
  repeat no keyword of the plot call, the constructor raises \<^verbatim>\<open>ValueError\<close>, from \<^verbatim>\<open>max\<close> of the empty
  list \<^verbatim>\<open>stds\<close>, and does so only after the frame, the contours and the reference point
  have been drawn: at the raise the figure holds all of them and the point list holds
  the reference point.
\<close>

theorem empty_samples_fail_after_drawing:
  assumes "kw_ok (or_default pk [])"
  shows "\<exists>d. TaylorDiagram ax r [] N mk cl sc msz pk = Inl (ValueError, d) \<and>
           fig d = [AxisOff, AddAxes ax (make_grid_helper d)] @ axis_calls @
                   [Grid, std_arc d, rms_contour d, CLabel, PlotPoint (ref_point d)] \<and>
           points d = [ref_point d] \<and> label (ref_point d) = name r"
proof -
  define d where "d = outcome (TaylorDiagram ax r [] N mk cl sc msz pk)"
  have dist: "distinct (columns ([] :: frame))" by (simp add: columns_def)
  note o = TaylorDiagram_outcome[OF dist assms, where ax = ax and r = r and N = N
      and mk = mk and cl = cl and sc = sc and msz = msz, folded d_def]
  have e: "sample_styles d = []"
    using o(9) by (simp add: sample_styles_def)
  have "TaylorDiagram ax r [] N mk cl sc msz pk = Inl (ValueError, d)"
    using o(13) e by simp
  moreover have "fig d = frame_artists d ax"
    using o(1) e by (rule built_fig_empty)
  moreover have "points d = [ref_point d]"
    using built_points[OF o(1)] e by simp
  moreover have "label (ref_point d) = name r"
    using o(7) by simp
  ultimately show ?thesis
    unfolding frame_artists_def by blast
qed

theorem empty_samples_fail_after_drawing_witness:
  "kw_ok (or_default None []) \<and>
   (\<exists>d. TaylorDiagram (0, 0, 1, 1) \<lparr>name = ''ref'', vals = [1, 2, 3]\<rparr> [] False None None
           (6 / 5) 10 None = Inl (ValueError, d) \<and>
         fig d = [AxisOff, AddAxes (0, 0, 1, 1) (make_grid_helper d)] @ axis_calls @
                 [Grid, std_arc d, rms_contour d, CLabel, PlotPoint (ref_point d)] \<and>
         points d = [ref_point d] \<and> label (ref_point d) = ''ref'')"
  using empty_samples_fail_after_drawing[OF kw_ok_None,
      of "(0, 0, 1, 1)" "\<lparr>name = ''ref'', vals = [1, 2, 3]\<rparr>" False None None "6 / 5" 10]
  by (simp add: kw_ok_None)

text \<open>
  Claim C10 as stated fails: with an empty sample collection and a style override that
  repeats the keyword \<^verbatim>\<open>alpha\<close> of the plot call, the constructor raises
  \<^verbatim>\<open>TypeError\<close> at the plot call of the reference point, not \<^verbatim>\<open>ValueError\<close> from
  \<^verbatim>\<open>max\<close>, and no point has been drawn.
\<close>

theorem empty_samples_repeated_keyword:
  "TaylorDiagram (0, 0, 1, 1) \<lparr>name = ''ref'', vals = [1, 2, 3]\<rparr> [] False None None
      (6 / 5) 10 (Some [(''alpha'', ''1'')])
   = Inl (TypeError,
       outcome (TaylorDiagram (0, 0, 1, 1) \<lparr>name = ''ref'', vals = [1, 2, 3]\<rparr> [] False None None
         (6 / 5) 10 (Some [(''alpha'', ''1'')]))) \<and>
   points (outcome (TaylorDiagram (0, 0, 1, 1) \<lparr>name = ''ref'', vals = [1, 2, 3]\<rparr> [] False
      None None (6 / 5) 10 (Some [(''alpha'', ''1'')]))) = [] \<and>
   plotted (fig (outcome (TaylorDiagram (0, 0, 1, 1) \<lparr>name = ''ref'', vals = [1, 2, 3]\<rparr> []
      False None None (6 / 5) 10 (Some [(''alpha'', ''1'')])))) = []"
proof -
  have dist: "distinct (columns ([] :: frame))"
    by (simp add: columns_def)
  have bad: "\<not> kw_ok (or_default (Some [(''alpha'', ''1'')]) [])"
    by (simp add: kw_ok_def or_default_def plot_keywords_def)
  note b = TaylorDiagram_bad_kw[OF dist bad, where ax = "(0, 0, 1, 1)"
      and r = "\<lparr>name = ''ref'', vals = [1, 2, 3]\<rparr>" and N = False and mk = None and cl = None
      and sc = "6 / 5" and msz = 10]
  from b(1) b(2) b(3) show ?thesis
    by (simp add: plotted_frame_only)
qed

text \<open>
  Claim C9 as stated fails: with the one-element marker list \<^verbatim>\<open>['o']\<close> and two samples,
  both samples are skipped and the constructor raises \<^verbatim>\<open>ValueError\<close>, so the skip is not
  silent.
\<close>

theorem one_marker_all_skipped_raises:
  "min (length (or_default (Some [''o'']) default_markers))
       (length (or_default None default_colors)) - 1
     < length [(''A'', [0, 1 :: real]), (''B'', [1, 0])] \<and>
   TaylorDiagram (0, 0, 1, 1) \<lparr>name = ''ref'', vals = [0, 1]\<rparr>
      [(''A'', [0, 1]), (''B'', [1, 0])] False (Some [''o'']) None (6 / 5) 10 None
   = Inl (ValueError,
       outcome (TaylorDiagram (0, 0, 1, 1) \<lparr>name = ''ref'', vals = [0, 1]\<rparr>
         [(''A'', [0, 1]), (''B'', [1, 0])] False (Some [''o'']) None (6 / 5) 10 None)) \<and>
   map label (points (outcome (TaylorDiagram (0, 0, 1, 1) \<lparr>name = ''ref'', vals = [0, 1]\<rparr>
         [(''A'', [0, 1]), (''B'', [1, 0])] False (Some [''o'']) None (6 / 5) 10 None))) = [''ref'']"
proof -
  define d where "d = outcome (TaylorDiagram (0, 0, 1, 1) \<lparr>name = ''ref'', vals = [0, 1]\<rparr>
         [(''A'', [0, 1]), (''B'', [1, 0])] False (Some [''o'']) None (6 / 5) 10 None)"
  have dist: "distinct (columns [(''A'', [0, 1 :: real]), (''B'', [1, 0])])"
    by (simp add: columns_def)
  note o = TaylorDiagram_outcome[OF dist kw_ok_None, where ax = "(0, 0, 1, 1)"
      and r = "\<lparr>name = ''ref'', vals = [0, 1]\<rparr>" and N = False and mk = "Some [''o'']"
      and cl = None and sc = "6 / 5" and msz = 10, folded d_def]
  have e: "sample_styles d = []"
    using length_sample_styles[of d] unfolding o by (simp add: or_default_def)
  have "TaylorDiagram (0, 0, 1, 1) \<lparr>name = ''ref'', vals = [0, 1]\<rparr>
         [(''A'', [0, 1]), (''B'', [1, 0])] False (Some [''o'']) None (6 / 5) 10 None
        = Inl (ValueError, d)"
    using o(13) e by simp
  moreover have "map label (points d) = [''ref'']"
    unfolding built_points[OF o(1)] e using o(7) by simp
  ultimately show ?thesis
    unfolding d_def by (simp add: or_default_def)
qed

text \<open>
  Claim C9, as amended. When there are more samples (under pairwise distinct names) than
  \<open>k = min (len markers) (len colors) - 1\<close>, the loop of \<^verbatim>\<open>plot_sample\<close> runs over the
  shorter of the two tails only: at most \<open>k\<close> sample points are drawn, the markers on
  the figure are those of the point list, and these are the reference and the first
  \<open>k\<close> samples; the others are skipped without any error of their own. The constructor
  as a whole returns normally only if one sample at least is drawn: with \<open>k = 0\<close> every
  sample is skipped and \<^verbatim>\<open>max\<close> of the empty list raises \<^verbatim>\<open>ValueError\<close>; and when a
  style override repeats a keyword of the plot call, \<^verbatim>\<open>TypeError\<close> is raised before any
  point is drawn. The default palettes have 700 markers and 12 colours, so that \<open>k = 11\<close>.
\<close>

theorem excess_samples_skipped:
  fixes ax r df N mk cl sc msz pk
  assumes "distinct (columns df)"
    and "min (length (or_default mk default_markers)) (length (or_default cl default_colors)) - 1
           < length df"
  shows "map label (points (outcome (TaylorDiagram ax r df N mk cl sc msz pk))) =
           (if kw_ok (or_default pk [])
            then name r # take (min (length (or_default mk default_markers))
                                    (length (or_default cl default_colors)) - 1) (columns df)
            else []) \<and>
         plotted (fig (outcome (TaylorDiagram ax r df N mk cl sc msz pk))) =
           points (outcome (TaylorDiagram ax r df N mk cl sc msz pk)) \<and>
         length (points (outcome (TaylorDiagram ax r df N mk cl sc msz pk))) \<le>
           Suc (min (length (or_default mk default_markers))
                    (length (or_default cl default_colors)) - 1) \<and>
         TaylorDiagram ax r df N mk cl sc msz pk =
           (if \<not> kw_ok (or_default pk [])
            then Inl (TypeError, outcome (TaylorDiagram ax r df N mk cl sc msz pk))
            else if min (length (or_default mk default_markers))
                        (length (or_default cl default_colors)) - 1 = 0
            then Inl (ValueError, outcome (TaylorDiagram ax r df N mk cl sc msz pk))
            else Inr (outcome (TaylorDiagram ax r df N mk cl sc msz pk))) \<and>
         length default_markers = 700 \<and> length default_colors = 12"
proof -
  define d where "d = outcome (TaylorDiagram ax r df N mk cl sc msz pk)"
  define k where "k = min (length (or_default mk default_markers))
                          (length (or_default cl default_colors)) - 1"
  note f = TaylorDiagram_frame[OF assms(1), where ax = ax and r = r and N = N
      and mk = mk and cl = cl and sc = sc and msz = msz and pk = pk, folded d_def]
  have pl: "plotted (fig d) = points d"
    by (rule f(2))
  have main: "map label (points d) =
      (if kw_ok (or_default pk []) then name r # take k (columns df) else []) \<and>
      length (points d) \<le> Suc k \<and>
      TaylorDiagram ax r df N mk cl sc msz pk =
        (if \<not> kw_ok (or_default pk []) then Inl (TypeError, d)
         else if k = 0 then Inl (ValueError, d) else Inr d)"
  proof (cases "kw_ok (or_default pk [])")
    case True
    note o = TaylorDiagram_outcome[OF assms(1) True, where ax = ax and r = r and N = N
        and mk = mk and cl = cl and sc = sc and msz = msz, folded d_def]
    have len: "length (sample_styles d) = k"
      using assms(2) unfolding length_sample_styles o k_def by simp
    have lab: "map label (points d) = name r # take k (columns df)"
      unfolding built_points[OF o(1)] using labels_sample_styles[of d] len o(7,9)
      by (simp add: comp_def)
    have n: "length (points d) \<le> Suc k"
      unfolding built_points[OF o(1)] using len by simp
    have "TaylorDiagram ax r df N mk cl sc msz pk = (if k = 0 then Inl (ValueError, d) else Inr d)"
      using o(13) len by auto
    with lab n True show ?thesis by simp
  next
    case False
    note b = TaylorDiagram_bad_kw[OF assms(1) False, where ax = ax and r = r and N = N
        and mk = mk and cl = cl and sc = sc and msz = msz, folded d_def]
    from b(1,2) False show ?thesis by simp
  qed
  from main pl length_default_markers length_default_colors show ?thesis
    unfolding d_def k_def by blast
qed

theorem excess_samples_skipped_witness:
  "distinct (columns [(''A'', [0, 1]), (''B'', [1, 0])]) \<and>
   min (length (or_default (Some [''o'', ''s'']) default_markers))
       (length (or_default (Some [''k'', ''r'']) default_colors)) - 1
     < length [(''A'', [0, 1 :: real]), (''B'', [1, 0])] \<and>
   kw_ok (or_default None []) \<and>
   map label (points (outcome (TaylorDiagram (0, 0, 1, 1) \<lparr>name = ''ref'', vals = [0, 1]\<rparr>
        [(''A'', [0, 1]), (''B'', [1, 0])] False (Some [''o'', ''s'']) (Some [''k'', ''r''])
        (6 / 5) 10 None))) = [''ref'', ''A''] \<and>
   plotted (fig (outcome (TaylorDiagram (0, 0, 1, 1) \<lparr>name = ''ref'', vals = [0, 1]\<rparr>
        [(''A'', [0, 1]), (''B'', [1, 0])] False (Some [''o'', ''s'']) (Some [''k'', ''r''])
        (6 / 5) 10 None))) =
     points (outcome (TaylorDiagram (0, 0, 1, 1) \<lparr>name = ''ref'', vals = [0, 1]\<rparr>
        [(''A'', [0, 1]), (''B'', [1, 0])] False (Some [''o'', ''s'']) (Some [''k'', ''r''])
        (6 / 5) 10 None)) \<and>
   TaylorDiagram (0, 0, 1, 1) \<lparr>name = ''ref'', vals = [0, 1]\<rparr>
        [(''A'', [0, 1]), (''B'', [1, 0])] False (Some [''o'', ''s'']) (Some [''k'', ''r''])
        (6 / 5) 10 None =
     Inr (outcome (TaylorDiagram (0, 0, 1, 1) \<lparr>name = ''ref'', vals = [0, 1]\<rparr>
        [(''A'', [0, 1]), (''B'', [1, 0])] False (Some [''o'', ''s'']) (Some [''k'', ''r''])
        (6 / 5) 10 None))"
  using excess_samples_skipped[of "[(''A'', [0, 1]), (''B'', [1, 0])]"
      "Some [''o'', ''s'']" "Some [''k'', ''r'']" "(0, 0, 1, 1)"
      "\<lparr>name = ''ref'', vals = [0, 1]\<rparr>" False "6 / 5" 10 None]
  by (simp add: columns_def kw_ok_def or_default_def)

text \<open>
  Claim C2, as amended. When the samples number at most
  \<open>min (len markers) (len colors) - 1\<close>, the point list has one element more than
  there are samples: first the reference point, labelled with the reference's name and
  drawn with the first marker and colour, then one point per sample in column order,
  labelled with the column name, sample \<open>i\<close> drawn with marker \<open>i + 1\<close> and colour
  \<open>i + 1\<close>; with at least one sample the constructor returns normally.
\<close>

theorem points_in_order:
  fixes ax r df N mk cl sc msz pk
  assumes "distinct (columns df)" "kw_ok (or_default pk [])"
    and "length df \<le> min (length (or_default mk default_markers))
                          (length (or_default cl default_colors)) - 1"
  shows "length (points (outcome (TaylorDiagram ax r df N mk cl sc msz pk))) = length df + 1 \<and>
         label (points (outcome (TaylorDiagram ax r df N mk cl sc msz pk)) ! 0) = name r \<and>
         marker (points (outcome (TaylorDiagram ax r df N mk cl sc msz pk)) ! 0) =
           or_default mk default_markers ! 0 \<and>
         color (points (outcome (TaylorDiagram ax r df N mk cl sc msz pk)) ! 0) =
           or_default cl default_colors ! 0 \<and>
         (\<forall>i < length df.
            label (points (outcome (TaylorDiagram ax r df N mk cl sc msz pk)) ! Suc i) =
              columns df ! i \<and>
            marker (points (outcome (TaylorDiagram ax r df N mk cl sc msz pk)) ! Suc i) =
              or_default mk default_markers ! Suc i \<and>
            color (points (outcome (TaylorDiagram ax r df N mk cl sc msz pk)) ! Suc i) =
              or_default cl default_colors ! Suc i) \<and>
         (df \<noteq> [] \<longrightarrow>
            TaylorDiagram ax r df N mk cl sc msz pk =
              Inr (outcome (TaylorDiagram ax r df N mk cl sc msz pk)))"
proof -
  define d where "d = outcome (TaylorDiagram ax r df N mk cl sc msz pk)"
  define M where "M = or_default mk default_markers"
  define C where "C = or_default cl default_colors"
  have k: "min (length df) (min (length M) (length C) - 1) = length df"
    using assms(3) unfolding M_def C_def by simp
  note o = TaylorDiagram_outcome[OF assms(1,2), where ax = ax and r = r and N = N
      and mk = mk and cl = cl and sc = sc and msz = msz, folded d_def M_def C_def]
  note p = points_drawn[OF assms(1,2), where ax = ax and r = r and N = N
      and mk = mk and cl = cl and sc = sc and msz = msz, folded d_def M_def C_def,
      unfolded k]
  have a: "length (points d) = length df + 1"
    using p(1) by simp
  have b: "label (points d ! 0) = name r" "marker (points d ! 0) = M ! 0"
    "color (points d ! 0) = C ! 0"
    unfolding p(2) using o(4,5,7) by simp_all
  have c: "label (points d ! Suc i) = columns df ! i \<and> marker (points d ! Suc i) = M ! Suc i \<and>
           color (points d ! Suc i) = C ! Suc i" if "i < length df" for i
    unfolding p(3)[OF that] using that by (cases "df ! i") (simp add: columns_def)
  have e: "df \<noteq> [] \<Longrightarrow> TaylorDiagram ax r df N mk cl sc msz pk = Inr d"
    using p(4) by simp
  from a b c e show ?thesis
    unfolding d_def M_def C_def by blast
qed

theorem points_in_order_witness:
  "distinct (columns [(''A'', [0, 1]), (''B'', [1, 0])]) \<and>
   kw_ok (or_default None []) \<and>
   length [(''A'', [0, 1 :: real]), (''B'', [1, 0])]
     \<le> min (length (or_default (Some [''o'', ''s'', ''v'']) default_markers))
           (length (or_default (Some [''k'', ''r'', ''b'']) default_colors)) - 1 \<and>
   length (points (outcome (TaylorDiagram (0, 0, 1, 1) \<lparr>name = ''ref'', vals = [0, 1]\<rparr>
        [(''A'', [0, 1]), (''B'', [1, 0])] False (Some [''o'', ''s'', ''v''])
        (Some [''k'', ''r'', ''b'']) (6 / 5) 10 None))) = 3 \<and>
   map label (points (outcome (TaylorDiagram (0, 0, 1, 1) \<lparr>name = ''ref'', vals = [0, 1]\<rparr>
        [(''A'', [0, 1]), (''B'', [1, 0])] False (Some [''o'', ''s'', ''v''])
        (Some [''k'', ''r'', ''b'']) (6 / 5) 10 None))) = [''ref'', ''A'', ''B''] \<and>
   map marker (points (outcome (TaylorDiagram (0, 0, 1, 1) \<lparr>name = ''ref'', vals = [0, 1]\<rparr>
        [(''A'', [0, 1]), (''B'', [1, 0])] False (Some [''o'', ''s'', ''v''])
        (Some [''k'', ''r'', ''b'']) (6 / 5) 10 None))) = [''o'', ''s'', ''v''] \<and>
   map color (points (outcome (TaylorDiagram (0, 0, 1, 1) \<lparr>name = ''ref'', vals = [0, 1]\<rparr>
        [(''A'', [0, 1]), (''B'', [1, 0])] False (Some [''o'', ''s'', ''v''])
        (Some [''k'', ''r'', ''b'']) (6 / 5) 10 None))) = [''k'', ''r'', ''b'']"
proof -
  define ps where "ps = points (outcome (TaylorDiagram (0, 0, 1, 1)
        \<lparr>name = ''ref'', vals = [0, 1]\<rparr>
        [(''A'', [0, 1]), (''B'', [1, 0])] False (Some [''o'', ''s'', ''v''])
        (Some [''k'', ''r'', ''b'']) (6 / 5) 10 None))"
  have h: "distinct (columns [(''A'', [0, 1 :: real]), (''B'', [1, 0])])"
    "kw_ok (or_default None [])"
    "length [(''A'', [0, 1 :: real]), (''B'', [1, 0])]
     \<le> min (length (or_default (Some [''o'', ''s'', ''v'']) default_markers))
           (length (or_default (Some [''k'', ''r'', ''b'']) default_colors)) - 1"
    by (simp_all add: columns_def kw_ok_def or_default_def)
  from points_in_order[OF h, of "(0, 0, 1, 1)" "\<lparr>name = ''ref'', vals = [0, 1]\<rparr>" False
      "6 / 5" 10, folded ps_def]
  have f: "length ps = 3" "label (ps ! 0) = ''ref''" "marker (ps ! 0) = ''o''"
    "color (ps ! 0) = ''k''"
    "label (ps ! 1) = ''A''" "marker (ps ! 1) = ''s''" "color (ps ! 1) = ''r''"
    "label (ps ! 2) = ''B''" "marker (ps ! 2) = ''v''" "color (ps ! 2) = ''b''"
    by (simp_all add: columns_def or_default_def All_less_Suc numeral_2_eq_2)
  from f(1) obtain p0 p1 p2 where ps: "ps = [p0, p1, p2]"
    by (auto simp: length_Suc_conv numeral_3_eq_3)
  show ?thesis
    using f h unfolding ps_def[symmetric] ps by simp
qed


text \<open>
  Claim C2 as stated fails: with the default palettes and twelve samples the
  constructor returns normally with twelve points, not thirteen; and with one sample
  and a style override that repeats the keyword \<^verbatim>\<open>alpha\<close> of the plot call it raises
  \<^verbatim>\<open>TypeError\<close> with no point at all, not two.
\<close>

theorem twelve_samples_twelve_points:
  "TaylorDiagram (0, 0, 1, 1) \<lparr>name = ''ref'', vals = [0, 1]\<rparr>
      [(''a'', [0, 1]), (''b'', [0, 1]), (''c'', [0, 1]), (''d'', [0, 1]),
       (''e'', [0, 1]), (''f'', [0, 1]), (''g'', [0, 1]), (''h'', [0, 1]),
       (''i'', [0, 1]), (''j'', [0, 1]), (''k'', [0, 1]), (''l'', [0, 1])]
      False None None (6 / 5) 10 None
   = Inr (outcome (TaylorDiagram (0, 0, 1, 1) \<lparr>name = ''ref'', vals = [0, 1]\<rparr>
      [(''a'', [0, 1]), (''b'', [0, 1]), (''c'', [0, 1]), (''d'', [0, 1]),
       (''e'', [0, 1]), (''f'', [0, 1]), (''g'', [0, 1]), (''h'', [0, 1]),
       (''i'', [0, 1]), (''j'', [0, 1]), (''k'', [0, 1]), (''l'', [0, 1])]
      False None None (6 / 5) 10 None)) \<and>
   length (points (outcome (TaylorDiagram (0, 0, 1, 1) \<lparr>name = ''ref'', vals = [0, 1]\<rparr>
      [(''a'', [0, 1]), (''b'', [0, 1]), (''c'', [0, 1]), (''d'', [0, 1]),
       (''e'', [0, 1]), (''f'', [0, 1]), (''g'', [0, 1]), (''h'', [0, 1]),
       (''i'', [0, 1]), (''j'', [0, 1]), (''k'', [0, 1]), (''l'', [0, 1])]
      False None None (6 / 5) 10 None))) = 12 \<and>
   length [(''a'', [0, 1 :: real]), (''b'', [0, 1]), (''c'', [0, 1]), (''d'', [0, 1]),
       (''e'', [0, 1]), (''f'', [0, 1]), (''g'', [0, 1]), (''h'', [0, 1]),
       (''i'', [0, 1]), (''j'', [0, 1]), (''k'', [0, 1]), (''l'', [0, 1])] + 1 = 13 \<and>
   TaylorDiagram (0, 0, 1, 1) \<lparr>name = ''ref'', vals = [0, 1]\<rparr> [(''a'', [0, 1])]
      False None None (6 / 5) 10 (Some [(''alpha'', ''1'')])
   = Inl (TypeError,
       outcome (TaylorDiagram (0, 0, 1, 1) \<lparr>name = ''ref'', vals = [0, 1]\<rparr> [(''a'', [0, 1])]
         False None None (6 / 5) 10 (Some [(''alpha'', ''1'')]))) \<and>
   points (outcome (TaylorDiagram (0, 0, 1, 1) \<lparr>name = ''ref'', vals = [0, 1]\<rparr>
      [(''a'', [0, 1])] False None None (6 / 5) 10 (Some [(''alpha'', ''1'')]))) = []"
proof -
  define df :: frame where "df =
      [(''a'', [0, 1]), (''b'', [0, 1]), (''c'', [0, 1]), (''d'', [0, 1]),
       (''e'', [0, 1]), (''f'', [0, 1]), (''g'', [0, 1]), (''h'', [0, 1]),
       (''i'', [0, 1]), (''j'', [0, 1]), (''k'', [0, 1]), (''l'', [0, 1])]"
  have dist: "distinct (columns df)"
    by (simp add: df_def columns_def)
  have len: "length df = 12"
    by (simp add: df_def)
  have k: "min (length df) (min (length (or_default None default_markers))
                               (length (or_default None default_colors)) - 1) = 11"
    by (simp add: len or_default_None length_default_markers length_default_colors)
  note p = points_drawn[OF dist kw_ok_None, where ax = "(0, 0, 1, 1)"
      and r = "\<lparr>name = ''ref'', vals = [0, 1]\<rparr>" and N = False and mk = None and cl = None
      and sc = "6 / 5" and msz = 10, unfolded k]
  have dist1: "distinct (columns [(''a'', [0, 1 :: real])])"
    by (simp add: columns_def)
  have bad: "\<not> kw_ok (or_default (Some [(''alpha'', ''1'')]) [])"
    by (simp add: kw_ok_def or_default_def plot_keywords_def)
  note b = TaylorDiagram_bad_kw[OF dist1 bad, where ax = "(0, 0, 1, 1)"
      and r = "\<lparr>name = ''ref'', vals = [0, 1]\<rparr>" and N = False and mk = None and cl = None
      and sc = "6 / 5" and msz = 10]
  from p(1) p(4) len b(1) b(2) show ?thesis
    unfolding df_def by simp
qed

text \<open>
  Claim C6 as stated fails: when a style override repeats the keyword \<^verbatim>\<open>alpha\<close> of
  the plot call, the constructor raises \<^verbatim>\<open>TypeError\<close> at the plot call of the reference
  point, and no reference point is placed.
\<close>

theorem repeated_keyword_no_reference_point:
  "TaylorDiagram (0, 0, 1, 1) \<lparr>name = ''ref'', vals = [1, 2, 3]\<rparr> [(''A'', [1, 3, 2])]
      True None None (6 / 5) 10 (Some [(''alpha'', ''1'')])
   = Inl (TypeError,
       outcome (TaylorDiagram (0, 0, 1, 1) \<lparr>name = ''ref'', vals = [1, 2, 3]\<rparr>
         [(''A'', [1, 3, 2])] True None None (6 / 5) 10 (Some [(''alpha'', ''1'')]))) \<and>
   points (outcome (TaylorDiagram (0, 0, 1, 1) \<lparr>name = ''ref'', vals = [1, 2, 3]\<rparr>
      [(''A'', [1, 3, 2])] True None None (6 / 5) 10 (Some [(''alpha'', ''1'')]))) = [] \<and>
   plotted (fig (outcome (TaylorDiagram (0, 0, 1, 1) \<lparr>name = ''ref'', vals = [1, 2, 3]\<rparr>
      [(''A'', [1, 3, 2])] True None None (6 / 5) 10 (Some [(''alpha'', ''1'')])))) = []"
proof -
  have dist: "distinct (columns [(''A'', [1, 3, 2 :: real])])"
    by (simp add: columns_def)
  have bad: "\<not> kw_ok (or_default (Some [(''alpha'', ''1'')]) [])"
    by (simp add: kw_ok_def or_default_def plot_keywords_def)
  note b = TaylorDiagram_bad_kw[OF dist bad, where ax = "(0, 0, 1, 1)"
      and r = "\<lparr>name = ''ref'', vals = [1, 2, 3]\<rparr>" and N = True and mk = None and cl = None
      and sc = "6 / 5" and msz = 10]
  from b(1) b(2) b(3) show ?thesis
    by (simp add: plotted_frame_only)
qed

text \<open>
  Claim C6, as amended. When no style override repeats a keyword of the plot call
  (and the sample names are pairwise distinct), the reference point is the first point
  of the diagram and the first marker on the figure, and it is placed at angle 0 and at
  radius 1 when \<^verbatim>\<open>Normalize\<close> is set, else at the standard deviation of the
  reference, under the reference's name. These are the values written in
  \<^verbatim>\<open>step_up\<close>, not the result of \<^verbatim>\<open>calc_loc\<close> on the reference against itself:
  for a constant reference \<^verbatim>\<open>calc_loc\<close> gives the angle NaN, and the point is at
  angle 0 all the same.
\<close>

theorem reference_point_fixed:
  fixes ax r df N mk cl sc msz pk
  assumes "distinct (columns df)" "kw_ok (or_default pk [])"
  shows "theta (hd (points (outcome (TaylorDiagram ax r df N mk cl sc msz pk)))) = Fin 0 \<and>
         radius (hd (points (outcome (TaylorDiagram ax r df N mk cl sc msz pk)))) =
           (if N then Fin 1 else std (vals r)) \<and>
         label (hd (points (outcome (TaylorDiagram ax r df N mk cl sc msz pk)))) = name r \<and>
         clip_on (hd (points (outcome (TaylorDiagram ax r df N mk cl sc msz pk)))) = False \<and>
         points (outcome (TaylorDiagram ax r df N mk cl sc msz pk)) \<noteq> [] \<and>
         hd (plotted (fig (outcome (TaylorDiagram ax r df N mk cl sc msz pk)))) =
           hd (points (outcome (TaylorDiagram ax r df N mk cl sc msz pk))) \<and>
         (sdev (vals r) (vals r) = 0 \<longrightarrow>
            fst (calc_loc (outcome (TaylorDiagram ax r df N mk cl sc msz pk)) r r) = NaN)"
proof -
  define d where "d = outcome (TaylorDiagram ax r df N mk cl sc msz pk)"
  note o = TaylorDiagram_outcome[OF assms(1,2), where ax = ax and r = r and N = N
      and mk = mk and cl = cl and sc = sc and msz = msz, folded d_def]
  have h: "hd (points d) = ref_point d" "points d \<noteq> []"
    unfolding built_points[OF o(1)] by simp_all
  have "theta (hd (points d)) = Fin 0" "label (hd (points d)) = name r"
    "radius (hd (points d)) = (if N then Fin 1 else std (vals r))"
    "clip_on (hd (points d)) = False"
    unfolding h using o(7,11) by (simp_all add: ref_point_def)
  moreover have "hd (plotted (fig d)) = hd (points d)"
    unfolding built_plotted[OF o(1)] ..
  moreover have "sdev (vals r) (vals r) = 0 \<Longrightarrow> fst (calc_loc d r r) = NaN"
    by (simp add: calc_loc_def Let_def corr_constant_self)
  ultimately show ?thesis
    using h(2) unfolding d_def by blast
qed

theorem reference_point_fixed_witness:
  "distinct (columns [(''A'', [0, 1])]) \<and> kw_ok (or_default None []) \<and>
   sdev (vals \<lparr>name = ''ref'', vals = [2, 2, 2]\<rparr>) (vals \<lparr>name = ''ref'', vals = [2, 2, 2]\<rparr>) = 0 \<and>
   theta (hd (points (outcome (TaylorDiagram (0, 0, 1, 1) \<lparr>name = ''ref'', vals = [2, 2, 2]\<rparr>
       [(''A'', [0, 1])] True None None (6 / 5) 10 None)))) = Fin 0 \<and>
   radius (hd (points (outcome (TaylorDiagram (0, 0, 1, 1) \<lparr>name = ''ref'', vals = [2, 2, 2]\<rparr>
       [(''A'', [0, 1])] True None None (6 / 5) 10 None)))) = Fin 1 \<and>
   label (hd (points (outcome (TaylorDiagram (0, 0, 1, 1) \<lparr>name = ''ref'', vals = [2, 2, 2]\<rparr>
       [(''A'', [0, 1])] True None None (6 / 5) 10 None)))) = ''ref'' \<and>
   fst (calc_loc (outcome (TaylorDiagram (0, 0, 1, 1) \<lparr>name = ''ref'', vals = [2, 2, 2]\<rparr>
       [(''A'', [0, 1])] True None None (6 / 5) 10 None))
       \<lparr>name = ''ref'', vals = [2, 2, 2]\<rparr> \<lparr>name = ''ref'', vals = [2, 2, 2]\<rparr>) = NaN"
proof -
  have h: "distinct (columns [(''A'', [0, 1 :: real])])" "kw_ok (or_default None [])"
    by (simp_all add: columns_def kw_ok_def or_default_def)
  have z: "sdev (vals \<lparr>name = ''ref'', vals = [2, 2, 2]\<rparr>)
                (vals \<lparr>name = ''ref'', vals = [2, 2, 2]\<rparr>) = 0"
    by (simp add: sdev_def mean_def)
  from reference_point_fixed[OF h, of "(0, 0, 1, 1)" "\<lparr>name = ''ref'', vals = [2, 2, 2]\<rparr>"
      True None None "6 / 5" 10] z h
  show ?thesis by simp
qed

lemma stds_Fin:
  assumes "2 \<le> length (vals r)" "\<forall>p\<in>set df. 2 \<le> length (snd p)"
  shows "py_max (map (\<lambda>p. std (snd p)) df @ [std (vals r)]) =
           Inr (Fin (Max (set (sd (vals r) # map (\<lambda>p. sd (snd p)) df))))"
proof -
  have a: "map (\<lambda>p. std (snd p)) df = map Fin (map (\<lambda>p. sd (snd p)) df)"
    using assms(2) by (simp add: std_Fin)
  have b: "std (vals r) = Fin (sd (vals r))"
    using assms(1) by (rule std_Fin)
  have c: "map Fin (map (\<lambda>p. sd (snd p)) df) @ [Fin (sd (vals r))] =
      map Fin (map (\<lambda>p. sd (snd p)) df @ [sd (vals r)])"
    by simp
  have e: "set (map (\<lambda>p. sd (snd p)) df @ [sd (vals r)]) =
      set (sd (vals r) # map (\<lambda>p. sd (snd p)) df)"
    by simp
  show ?thesis
    unfolding a b c e[symmetric] by (rule py_max_Fin) simp
qed





text \<open>
  Claim C4 as stated fails in three ways. With \<^verbatim>\<open>Normalize\<close> set, the bound is the
  scale whatever the standard deviations are: for a reference of standard deviation 2
  and the scale 6/5 it is 6/5, below 12/5. With a negative scale the bound is below the
  scale times the smaller standard deviation. And with series of a single value the
  bound is NaN, which is not above anything.
\<close>

theorem normalized_bound_below_reference:
  "Smax (outcome (TaylorDiagram (0, 0, 1, 1) \<lparr>name = ''ref'', vals = [0, 2, 4]\<rparr>
      [(''A'', [0, 2, 4])] True None None (6 / 5) 10 None)) = Fin (6 / 5) \<and>
   std (vals \<lparr>name = ''ref'', vals = [0, 2, 4]\<rparr>) = Fin 2 \<and>
   (6 / 5 :: real) < 6 / 5 * 2 \<and>
   Smax (outcome (TaylorDiagram (0, 0, 1, 1) \<lparr>name = ''ref'', vals = [0, 2, 4]\<rparr>
      [(''A'', [0, 1, 2])] False None None (- 1) 10 None)) = Fin (- 2) \<and>
   std [0, 1, 2] = Fin 1 \<and>
   (- 2 :: real) < - 1 * 1 \<and>
   Smax (outcome (TaylorDiagram (0, 0, 1, 1) \<lparr>name = ''ref'', vals = [3]\<rparr>
      [(''A'', [1])] False None None (6 / 5) 10 None)) = NaN"
proof -
  have s2: "std [0, 2, 4] = Fin 2"
    by (simp add: std_def sdev_def mean_def)
  have s1: "std [0, 1, 2] = Fin 1"
    by (simp add: std_def sdev_def mean_def)
  have s0: "std [1] = NaN" "std [3] = NaN"
    by (simp_all add: std_def)
  have d1: "distinct (columns [(''A'', [0, 2, 4 :: real])])"
    and d2: "distinct (columns [(''A'', [0, 1, 2 :: real])])"
    and d3: "distinct (columns [(''A'', [1 :: real])])"
    by (simp_all add: columns_def)
  note f1 = TaylorDiagram_frame(9)[OF d1, where ax = "(0, 0, 1, 1)"
      and r = "\<lparr>name = ''ref'', vals = [0, 2, 4]\<rparr>" and N = True and mk = None and cl = None
      and sc = "6 / 5" and msz = 10 and pk = None]
  note f2 = TaylorDiagram_frame(9)[OF d2, where ax = "(0, 0, 1, 1)"
      and r = "\<lparr>name = ''ref'', vals = [0, 2, 4]\<rparr>" and N = False and mk = None and cl = None
      and sc = "- 1" and msz = 10 and pk = None]
  note f3 = TaylorDiagram_frame(9)[OF d3, where ax = "(0, 0, 1, 1)"
      and r = "\<lparr>name = ''ref'', vals = [3]\<rparr>" and N = False and mk = None and cl = None
      and sc = "6 / 5" and msz = 10 and pk = None]
  have a: "Smax (outcome (TaylorDiagram (0, 0, 1, 1) \<lparr>name = ''ref'', vals = [0, 2, 4]\<rparr>
      [(''A'', [0, 2, 4])] True None None (6 / 5) 10 None)) = Fin (6 / 5)"
    using f1 by auto
  have b: "Smax (outcome (TaylorDiagram (0, 0, 1, 1) \<lparr>name = ''ref'', vals = [0, 2, 4]\<rparr>
      [(''A'', [0, 1, 2])] False None None (- 1) 10 None)) = Fin (- 2)"
    using f2 by (auto simp: s1 s2)
  have c: "Smax (outcome (TaylorDiagram (0, 0, 1, 1) \<lparr>name = ''ref'', vals = [3]\<rparr>
      [(''A'', [1])] False None None (6 / 5) 10 None)) = NaN"
    using f3 by (auto simp: s0)
  from a b c s1 s2 show ?thesis by simp
qed

text \<open>
  Claim C4, as amended. Without \<^verbatim>\<open>Normalize\<close>, for a scale that is not negative and
  series of two values at least (under pairwise distinct names), the radial bound
  \<^verbatim>\<open>Smax\<close> is a number, and it is at least the scale times the standard deviation of the
  reference and at least the scale times the standard deviation of every sample.
\<close>

theorem radial_bound_covers:
  fixes ax r df N mk cl sc msz pk
  assumes "distinct (columns df)" "\<not> N" "0 \<le> sc"
    and "2 \<le> length (vals r)" "\<forall>p\<in>set df. 2 \<le> length (snd p)"
  shows "\<exists>S. Smax (outcome (TaylorDiagram ax r df N mk cl sc msz pk)) = Fin S \<and>
           std (vals r) = Fin (sd (vals r)) \<and> sc * sd (vals r) \<le> S \<and>
           (\<forall>p\<in>set df. std (snd p) = Fin (sd (snd p)) \<and> sc * sd (snd p) \<le> S)"
proof -
  define d where "d = outcome (TaylorDiagram ax r df N mk cl sc msz pk)"
  define M where "M = Max (set (sd (vals r) # map (\<lambda>p. sd (snd p)) df))"
  note f = TaylorDiagram_frame[OF assms(1), where ax = ax and r = r and N = N
      and mk = mk and cl = cl and sc = sc and msz = msz and pk = pk, folded d_def]
  from f(9) stds_Fin[OF assms(4,5)] assms(2) have S: "Smax d = Fin (M * sc)"
    unfolding M_def by auto
  have r: "sd (vals r) \<le> M"
    unfolding M_def by (rule Max_ge) simp_all
  have p: "sd (snd p) \<le> M" if "p \<in> set df" for p
    unfolding M_def using that by (intro Max_ge) auto
  have "sc * sd (vals r) \<le> M * sc"
    using mult_left_mono[OF r assms(3)] by (simp add: ac_simps)
  moreover have "sc * sd (snd p) \<le> M * sc" if "p \<in> set df" for p
    using mult_left_mono[OF p[OF that] assms(3)] by (simp add: ac_simps)
  ultimately show ?thesis
    using S assms(4,5) unfolding d_def[symmetric] by (auto simp: std_Fin)
qed

theorem radial_bound_covers_witness:
  "distinct (columns [(''A'', [0, 1, 2])]) \<and> \<not> False \<and> (0 :: real) \<le> 6 / 5 \<and>
   2 \<le> length (vals \<lparr>name = ''ref'', vals = [0, 2, 4]\<rparr>) \<and>
   2 \<le> length (snd (''A'', [0, 1, 2 :: real])) \<and>
   (\<exists>S. Smax (outcome (TaylorDiagram (0, 0, 1, 1) \<lparr>name = ''ref'', vals = [0, 2, 4]\<rparr>
           [(''A'', [0, 1, 2])] False None None (6 / 5) 10 None)) = Fin S \<and>
        6 / 5 * sd [0, 2, 4] \<le> S \<and> 6 / 5 * sd [0, 1, 2] \<le> S)"
proof -
  have h: "distinct (columns [(''A'', [0, 1, 2 :: real])])" "\<not> False" "(0 :: real) \<le> 6 / 5"
    "2 \<le> length (vals \<lparr>name = ''ref'', vals = [0, 2, 4]\<rparr>)"
    "\<forall>p\<in>set [(''A'', [0, 1, 2 :: real])]. 2 \<le> length (snd p)"
    by (simp_all add: columns_def)
  from radial_bound_covers[OF h, of "(0, 0, 1, 1)" None None 10 None] h
  show ?thesis by auto
qed

text \<open>
  Claim C3 as stated fails: for a sample of four values against a reference of three
  the constructor raises nothing and returns the diagram with both points drawn.
\<close>

theorem length_mismatch_not_rejected:
  "length (vals \<lparr>name = ''ref'', vals = [1, 2, 3 :: real]\<rparr>) \<noteq> length [1, 2, 3, 4 :: real] \<and>
   TaylorDiagram (0, 0, 1, 1) \<lparr>name = ''ref'', vals = [1, 2, 3]\<rparr> [(''A'', [1, 2, 3, 4])]
      False None None (6 / 5) 10 None
   = Inr (outcome (TaylorDiagram (0, 0, 1, 1) \<lparr>name = ''ref'', vals = [1, 2, 3]\<rparr>
       [(''A'', [1, 2, 3, 4])] False None None (6 / 5) 10 None)) \<and>
   map label (plotted (fig (outcome (TaylorDiagram (0, 0, 1, 1)
       \<lparr>name = ''ref'', vals = [1, 2, 3]\<rparr> [(''A'', [1, 2, 3, 4])]
       False None None (6 / 5) 10 None)))) = [''ref'', ''A'']"
proof -
  define d where "d = outcome (TaylorDiagram (0, 0, 1, 1)
       \<lparr>name = ''ref'', vals = [1, 2, 3]\<rparr> [(''A'', [1, 2, 3, 4])]
       False None None (6 / 5) 10 None)"
  have dist: "distinct (columns [(''A'', [1, 2, 3, 4 :: real])])"
    by (simp add: columns_def)
  note o = TaylorDiagram_outcome[OF dist kw_ok_None, where ax = "(0, 0, 1, 1)"
      and r = "\<lparr>name = ''ref'', vals = [1, 2, 3]\<rparr>" and N = False and mk = None
      and cl = None and sc = "6 / 5" and msz = 10, folded d_def]
  have len: "length (sample_styles d) = 1"
    unfolding length_sample_styles o
    by (simp add: or_default_None length_default_markers length_default_colors)
  then have ne: "sample_styles d \<noteq> []"
    by auto
  have T: "TaylorDiagram (0, 0, 1, 1) \<lparr>name = ''ref'', vals = [1, 2, 3]\<rparr>
      [(''A'', [1, 2, 3, 4])] False None None (6 / 5) 10 None = Inr d"
    using o(13) ne by simp
  have "map label (points d) = [''ref'', ''A'']"
    unfolding built_points[OF o(1)] using labels_sample_styles[of d] len o(7,9)
    by (simp add: comp_def columns_def)
  then have "map label (plotted (fig d)) = [''ref'', ''A'']"
    unfolding built_plotted[OF o(1)] .
  with T show ?thesis
    unfolding d_def by simp
qed

text \<open>
  Claim C3, as amended. The constructor does not validate the series. Whatever the
  lengths of the reference and of the samples (under pairwise distinct names), it draws
  the frame and the contours first, and its outcome depends on the style overrides and
  on the number of sample points only: \<^verbatim>\<open>TypeError\<close> at the reference point when a
  style override repeats a keyword of the plot call, \<^verbatim>\<open>ValueError\<close> from \<^verbatim>\<open>max\<close> of
  the empty list when no sample point is drawn, and a normal return otherwise.
\<close>

theorem no_validation:
  fixes ax r df N mk cl sc msz pk
  assumes "distinct (columns df)"
  shows "TaylorDiagram ax r df N mk cl sc msz pk =
           (if \<not> kw_ok (or_default pk [])
            then Inl (TypeError, outcome (TaylorDiagram ax r df N mk cl sc msz pk))
            else if min (length df) (min (length (or_default mk default_markers))
                                         (length (or_default cl default_colors)) - 1) = 0
            then Inl (ValueError, outcome (TaylorDiagram ax r df N mk cl sc msz pk))
            else Inr (outcome (TaylorDiagram ax r df N mk cl sc msz pk))) \<and>
         take 20 (fig (outcome (TaylorDiagram ax r df N mk cl sc msz pk))) =
           [AxisOff,
            AddAxes ax (make_grid_helper (outcome (TaylorDiagram ax r df N mk cl sc msz pk)))] @
           axis_calls @
           [Grid, std_arc (outcome (TaylorDiagram ax r df N mk cl sc msz pk)),
            rms_contour (outcome (TaylorDiagram ax r df N mk cl sc msz pk)), CLabel] \<and>
         20 \<le> length (fig (outcome (TaylorDiagram ax r df N mk cl sc msz pk)))"
proof -
  define d where "d = outcome (TaylorDiagram ax r df N mk cl sc msz pk)"
  define k where "k = min (length df) (min (length (or_default mk default_markers))
                                           (length (or_default cl default_colors)) - 1)"
  note f = TaylorDiagram_frame[OF assms(1), where ax = ax and r = r and N = N
      and mk = mk and cl = cl and sc = sc and msz = msz and pk = pk, folded d_def]
  have fr: "take 20 (fig d) = frame_only d ax"
    by (rule f(1))
  have "length (take 20 (fig d)) = 20"
    unfolding fr by (rule length_frame_only)
  then have len: "20 \<le> length (fig d)"
    by simp
  have res: "TaylorDiagram ax r df N mk cl sc msz pk =
      (if \<not> kw_ok (or_default pk []) then Inl (TypeError, d)
       else if k = 0 then Inl (ValueError, d) else Inr d)"
  proof (cases "kw_ok (or_default pk [])")
    case True
    note o = TaylorDiagram_outcome[OF assms(1) True, where ax = ax and r = r and N = N
        and mk = mk and cl = cl and sc = sc and msz = msz, folded d_def]
    have "length (sample_styles d) = k"
      unfolding length_sample_styles o k_def by (simp add: min_def)
    then have "sample_styles d = [] \<longleftrightarrow> k = 0"
      by auto
    with o(13) True show ?thesis by simp
  next
    case False
    note b = TaylorDiagram_bad_kw[OF assms(1) False, where ax = ax and r = r and N = N
        and mk = mk and cl = cl and sc = sc and msz = msz, folded d_def]
    from b(1) False show ?thesis by simp
  qed
  from res fr len show ?thesis
    unfolding d_def k_def frame_only_def by blast
qed

theorem no_validation_witness:
  "distinct (columns [(''A'', [1, 2])]) \<and>
   length (vals \<lparr>name = ''ref'', vals = [1, 2, 3 :: real]\<rparr>) \<noteq> length [1, 2 :: real] \<and>
   TaylorDiagram (0, 0, 1, 1) \<lparr>name = ''ref'', vals = [1, 2, 3]\<rparr> [(''A'', [1, 2])]
      False None None (6 / 5) 10 None
   = Inr (outcome (TaylorDiagram (0, 0, 1, 1) \<lparr>name = ''ref'', vals = [1, 2, 3]\<rparr>
       [(''A'', [1, 2])] False None None (6 / 5) 10 None)) \<and>
   20 \<le> length (fig (outcome (TaylorDiagram (0, 0, 1, 1) \<lparr>name = ''ref'', vals = [1, 2, 3]\<rparr>
       [(''A'', [1, 2])] False None None (6 / 5) 10 None)))"
proof -
  have h: "distinct (columns [(''A'', [1, 2 :: real])])"
    by (simp add: columns_def)
  from no_validation[OF h, of "(0, 0, 1, 1)" "\<lparr>name = ''ref'', vals = [1, 2, 3]\<rparr>"
      False None None "6 / 5" 10 None] h
  show ?thesis
    by (simp add: kw_ok_def or_default_None length_default_markers length_default_colors)
qed

lemma Tlocs_eq:
  "Tlocs = map (\<lambda>c. Fin (arccos c)) [0, 0.2, 0.4, 0.6, 0.7, 0.8, 0.9, 0.95, 0.99, 1]"
  by (simp add: Tlocs_def Rlocs_def)

lemma distinct_Tlocs: "distinct Tlocs"
proof -
  have "inj_on (\<lambda>c. Fin (arccos c)) {c. \<bar>c\<bar> \<le> 1}"
    by (rule inj_onI) (simp add: arccos_eq_iff)
  then have "inj_on (\<lambda>c. Fin (arccos c))
      (set [0, 0.2, 0.4, 0.6, 0.7, 0.8, 0.9, 0.95, 0.99, 1 :: real])"
    by (rule inj_on_subset) auto
  moreover have "distinct [0, 0.2, 0.4, 0.6, 0.7, 0.8, 0.9, 0.95, 0.99, 1 :: real]"
    by simp
  ultimately show ?thesis
    unfolding Tlocs_eq by (simp only: distinct_map simp_thms)
qed

lemma DictFormatter_distinct:
  assumes "distinct ks" "length ks = length vs"
  shows "map (DictFormatter (zip ks vs)) ks = vs"
proof (rule nth_equalityI)
  show "length (map (DictFormatter (zip ks vs)) ks) = length vs"
    using assms(2) by simp
next
  fix i assume "i < length (map (DictFormatter (zip ks vs)) ks)"
  then have i: "i < length vs"
    using assms(2) by simp
  have d: "distinct (map fst (zip ks vs))"
    using assms by simp
  have "map_of (rev (zip ks vs)) = map_of (zip ks vs)"
    using d by (subst map_of_inject_set) (simp_all add: rev_map[symmetric])
  then have "dict_get (zip ks vs) (ks ! i) = Some (vs ! i)"
    unfolding dict_get_def using map_of_zip_nth[OF assms(2,1) i] by simp
  then show "map (DictFormatter (zip ks vs)) ks ! i = vs ! i"
    using i assms(2) by (simp add: DictFormatter_def)
qed

lemma DictFormatter_map:
  "map (DictFormatter (zip ts (map f ts))) ts = map f ts"
proof -
  have "rev (zip ts (map f ts)) = zip (rev ts) (map f (rev ts))"
    by (simp add: zip_rev[symmetric] rev_map)
  then have "dict_get (zip ts (map f ts)) t = Some (f t)" if "t \<in> set ts" for t
    unfolding dict_get_def using that by (simp add: map_of_zip_map)
  then show ?thesis
    by (simp add: DictFormatter_def)
qed

lemma linspace_four:
  "linspace (Fin 0) (Fin S) 4 = [Fin 0, Fin (S / 3), Fin (2 * S / 3), Fin S]"
  by (simp add: linspace_def num_sub_def Let_def upt_rec)

lemma fig_frame_nth:
  assumes "take 20 (fig d) = frame_only d ax"
  shows "fig d ! 1 = AddAxes ax (make_grid_helper d)" "fig d ! 18 = rms_contour d"
proof -
  have "fig d ! 1 = take 20 (fig d) ! 1" "fig d ! 18 = take 20 (fig d) ! 18"
    by simp_all
  then show "fig d ! 1 = AddAxes ax (make_grid_helper d)" "fig d ! 18 = rms_contour d"
    unfolding assms by (simp_all add: frame_only_def axis_calls_def)
qed

lemma Smax_finite:
  fixes ax r df N mk cl sc msz pk
  assumes "distinct (columns df)"
    and "N \<or> 2 \<le> length (vals r) \<and> (\<forall>p\<in>set df. 2 \<le> length (snd p))"
  shows "\<exists>S. Smax (outcome (TaylorDiagram ax r df N mk cl sc msz pk)) = Fin S"
proof -
  define d where "d = outcome (TaylorDiagram ax r df N mk cl sc msz pk)"
  note f = TaylorDiagram_frame[OF assms(1), where ax = ax and r = r and N = N
      and mk = mk and cl = cl and sc = sc and msz = msz and pk = pk, folded d_def]
  from f(9) obtain m where
    m: "py_max (map (\<lambda>p. std (snd p)) df @ [std (vals r)]) = Inr m"
    and S: "Smax d = num_mul (if N then Fin 1 else m) (Fin sc)"
    by blast
  show ?thesis
  proof (cases N)
    case True
    then show ?thesis unfolding d_def[symmetric] S by simp
  next
    case False
    with assms(2) have "2 \<le> length (vals r)" "\<forall>p\<in>set df. 2 \<le> length (snd p)"
      by simp_all
    from stds_Fin[OF this] m False show ?thesis
      unfolding d_def[symmetric] S by auto
  qed
qed


text \<open>
  Claim C7 as stated fails for the radial axis: without \<^verbatim>\<open>Normalize\<close> and with
  series of a single value, whose standard deviation is NaN, the bound \<^verbatim>\<open>Smax\<close> is NaN
  and the four radial ticks are NaN; they do not start at 0.
\<close>

theorem single_value_sample_nan_ticks:
  "fig (outcome (TaylorDiagram (0, 0, 1, 1) \<lparr>name = ''ref'', vals = [3]\<rparr>
      [(''A'', [1])] False None None (6 / 5) 10 None)) ! 1 =
     AddAxes (0, 0, 1, 1)
       (make_grid_helper (outcome (TaylorDiagram (0, 0, 1, 1)
          \<lparr>name = ''ref'', vals = [3]\<rparr> [(''A'', [1])] False None None (6 / 5) 10 None))) \<and>
   grid_locator2 (make_grid_helper (outcome (TaylorDiagram (0, 0, 1, 1)
      \<lparr>name = ''ref'', vals = [3]\<rparr> [(''A'', [1])] False None None (6 / 5) 10 None))) =
     [NaN, NaN, NaN, NaN]"
proof -
  define d where "d = outcome (TaylorDiagram (0, 0, 1, 1)
      \<lparr>name = ''ref'', vals = [3]\<rparr> [(''A'', [1])] False None None (6 / 5) 10 None)"
  have dist: "distinct (columns [(''A'', [1 :: real])])"
    by (simp add: columns_def)
  note f = TaylorDiagram_frame[OF dist, where ax = "(0, 0, 1, 1)"
      and r = "\<lparr>name = ''ref'', vals = [3]\<rparr>" and N = False and mk = None and cl = None
      and sc = "6 / 5" and msz = 10 and pk = None, folded d_def]
  have s0: "std [1] = NaN" "std [3] = NaN"
    by (simp_all add: std_def)
  have S: "Smax d = NaN"
    using f(9) by (auto simp: s0)
  have "grid_locator2 (make_grid_helper d) = [NaN, NaN, NaN, NaN]"
    by (simp add: make_grid_helper_def Slocs_def S linspace_def num_sub_def Let_def upt_rec)
  with fig_frame_nth(1)[OF f(1)] show ?thesis
    unfolding d_def by simp
qed

text \<open>
  Claim C7, as amended. For every input (under pairwise distinct sample names) the
  second call on the figure creates the axes with a grid helper whose angular ticks are
  at \<open>arccos c\<close> for the ten levels \<open>c\<close> of \<^verbatim>\<open>Rlocs\<close>, each labelled with \<^verbatim>\<open>str(c)\<close>.
  When the bound \<^verbatim>\<open>Smax\<close> is a number, which it is with \<^verbatim>\<open>Normalize\<close> or when every
  series has two values at least, the radial ticks are the four values
  \<open>0, Smax / 3, 2 Smax / 3, Smax\<close>, each labelled with its \<^verbatim>\<open>"%.1f"\<close> format.
\<close>

theorem axis_ticks:
  fixes ax r df N mk cl sc msz pk
  assumes "distinct (columns df)"
  shows "fig (outcome (TaylorDiagram ax r df N mk cl sc msz pk)) ! 1 =
           AddAxes ax (make_grid_helper (outcome (TaylorDiagram ax r df N mk cl sc msz pk))) \<and>
         grid_locator1 (make_grid_helper (outcome (TaylorDiagram ax r df N mk cl sc msz pk))) =
           map (\<lambda>c. Fin (arccos c)) [0, 0.2, 0.4, 0.6, 0.7, 0.8, 0.9, 0.95, 0.99, 1] \<and>
         map (DictFormatter
                (tick_formatter1
                  (make_grid_helper (outcome (TaylorDiagram ax r df N mk cl sc msz pk)))))
           (grid_locator1 (make_grid_helper (outcome (TaylorDiagram ax r df N mk cl sc msz pk)))) =
           map (\<lambda>c. Str (Fin c)) [0, 0.2, 0.4, 0.6, 0.7, 0.8, 0.9, 0.95, 0.99, 1] \<and>
         (N \<or> 2 \<le> length (vals r) \<and> (\<forall>p\<in>set df. 2 \<le> length (snd p)) \<longrightarrow>
           (\<exists>S. Smax (outcome (TaylorDiagram ax r df N mk cl sc msz pk)) = Fin S \<and>
              grid_locator2
                (make_grid_helper (outcome (TaylorDiagram ax r df N mk cl sc msz pk))) =
                [Fin 0, Fin (S / 3), Fin (2 * S / 3), Fin S] \<and>
              map (DictFormatter
                     (tick_formatter2
                       (make_grid_helper (outcome (TaylorDiagram ax r df N mk cl sc msz pk)))))
                (grid_locator2
                  (make_grid_helper (outcome (TaylorDiagram ax r df N mk cl sc msz pk)))) =
                [Fmt1f (Fin 0), Fmt1f (Fin (S / 3)), Fmt1f (Fin (2 * S / 3)), Fmt1f (Fin S)]))"
proof -
  define d where "d = outcome (TaylorDiagram ax r df N mk cl sc msz pk)"
  define h where "h = make_grid_helper d"
  note f = TaylorDiagram_frame[OF assms(1), where ax = ax and r = r and N = N
      and mk = mk and cl = cl and sc = sc and msz = msz and pk = pk, folded d_def]
  have a: "fig d ! 1 = AddAxes ax h"
    unfolding h_def by (rule fig_frame_nth(1)[OF f(1)])
  have g1: "grid_locator1 h = Tlocs" and t1: "tick_formatter1 h = zip Tlocs (map Str Rlocs)"
    and g2: "grid_locator2 h = Slocs d"
    and t2: "tick_formatter2 h = zip (Slocs d) (map Fmt1f (Slocs d))"
    unfolding h_def make_grid_helper_def by simp_all
  have b: "grid_locator1 h =
      map (\<lambda>c. Fin (arccos c)) [0, 0.2, 0.4, 0.6, 0.7, 0.8, 0.9, 0.95, 0.99, 1]"
    unfolding g1 by (rule Tlocs_eq)
  have "map (DictFormatter (tick_formatter1 h)) (grid_locator1 h) = map Str Rlocs"
    unfolding g1 t1 by (rule DictFormatter_distinct[OF distinct_Tlocs]) (simp add: Tlocs_def)
  then have c: "map (DictFormatter (tick_formatter1 h)) (grid_locator1 h) =
      map (\<lambda>c. Str (Fin c)) [0, 0.2, 0.4, 0.6, 0.7, 0.8, 0.9, 0.95, 0.99, 1]"
    by (simp add: Rlocs_def)
  have e: "\<exists>S. Smax d = Fin S \<and>
      grid_locator2 h = [Fin 0, Fin (S / 3), Fin (2 * S / 3), Fin S] \<and>
      map (DictFormatter (tick_formatter2 h)) (grid_locator2 h) =
        [Fmt1f (Fin 0), Fmt1f (Fin (S / 3)), Fmt1f (Fin (2 * S / 3)), Fmt1f (Fin S)]"
    if "N \<or> 2 \<le> length (vals r) \<and> (\<forall>p\<in>set df. 2 \<le> length (snd p))"
  proof -
    from Smax_finite[OF assms(1) that, of ax mk cl sc msz pk] obtain S where
      S: "Smax d = Fin S"
      unfolding d_def by blast
    have l: "Slocs d = [Fin 0, Fin (S / 3), Fin (2 * S / 3), Fin S]"
      unfolding Slocs_def S by (rule linspace_four)
    have "map (DictFormatter (tick_formatter2 h)) (grid_locator2 h) = map Fmt1f (Slocs d)"
      unfolding g2 t2 by (rule DictFormatter_map)
    with S l g2 show ?thesis
      by simp
  qed
  from a b c e show ?thesis
    unfolding h_def d_def by blast
qed

theorem axis_ticks_witness:
  "distinct (columns [(''A'', [0, 1, 2])]) \<and>
   fig (outcome (TaylorDiagram (0, 0, 1, 1) \<lparr>name = ''ref'', vals = [0, 2, 4]\<rparr>
      [(''A'', [0, 1, 2])] True None None (6 / 5) 10 None)) ! 1 =
     AddAxes (0, 0, 1, 1)
       (make_grid_helper (outcome (TaylorDiagram (0, 0, 1, 1)
          \<lparr>name = ''ref'', vals = [0, 2, 4]\<rparr> [(''A'', [0, 1, 2])] True None None
          (6 / 5) 10 None))) \<and>
   grid_locator2 (make_grid_helper (outcome (TaylorDiagram (0, 0, 1, 1)
      \<lparr>name = ''ref'', vals = [0, 2, 4]\<rparr> [(''A'', [0, 1, 2])] True None None
      (6 / 5) 10 None))) = [Fin 0, Fin (2 / 5), Fin (4 / 5), Fin (6 / 5)]"
proof -
  define d where "d = outcome (TaylorDiagram (0, 0, 1, 1)
      \<lparr>name = ''ref'', vals = [0, 2, 4]\<rparr> [(''A'', [0, 1, 2])] True None None (6 / 5) 10 None)"
  have h: "distinct (columns [(''A'', [0, 1, 2 :: real])])"
    by (simp add: columns_def)
  have S: "Smax d = Fin (6 / 5)"
    using TaylorDiagram_frame(9)[OF h, where ax = "(0, 0, 1, 1)"
      and r = "\<lparr>name = ''ref'', vals = [0, 2, 4]\<rparr>" and N = True and mk = None and cl = None
      and sc = "6 / 5" and msz = 10 and pk = None, folded d_def]
    by auto
  from axis_ticks[OF h, of "(0, 0, 1, 1)" "\<lparr>name = ''ref'', vals = [0, 2, 4]\<rparr>" True
      None None "6 / 5" 10 None, folded d_def] S h
  show ?thesis
    unfolding d_def[symmetric] by auto
qed

lemma linspace_from_zero:
  assumes "2 \<le> n"
  shows "linspace (Fin 0) b n =
           map (\<lambda>i. num_mul (Fin (real i)) (num_div b (Fin (real (n - 1))))) [0..<n]"
proof -
  obtain k where n: "n = Suc (Suc k)"
    using assms by (metis Suc_le_D numeral_2_eq_2 Suc_le_mono)
  have "[0..<n] = [0..<n - 1] @ [n - 1]"
    unfolding n by simp
  then show ?thesis
    using assms by (cases b) (auto simp: linspace_def num_sub_def Let_def n)
qed

lemma length_linspace: "length (linspace a b n) = n"
  by (auto simp: linspace_def Let_def)

lemma linspace_angles:
  "linspace (Fin 0) (Fin (pi / 2)) 100 = map (\<lambda>i. Fin (real i * (pi / 2) / 99)) [0..<100]"
  unfolding linspace_from_zero[of 100 "Fin (pi / 2)", simplified] by simp

lemma rms_radicand_nonneg: "0 \<le> a * a + r * r - 2 * a * r * cos t" for a r t :: real
proof -
  have "\<bar>a * r * cos t\<bar> \<le> \<bar>a * r\<bar>"
    using abs_cos_le_one[of t] by (simp add: abs_mult mult_left_le)
  moreover have "a * r * cos t \<le> \<bar>a * r * cos t\<bar>"
    by (rule abs_ge_self)
  ultimately have "a * r * cos t \<le> \<bar>a\<bar> * \<bar>r\<bar>"
    by (simp add: abs_mult)
  then have "2 * a * r * cos t \<le> 2 * \<bar>a\<bar> * \<bar>r\<bar>"
    by simp
  moreover have "0 \<le> (\<bar>a\<bar> - \<bar>r\<bar>)\<^sup>2"
    by simp
  then have "2 * \<bar>a\<bar> * \<bar>r\<bar> \<le> a * a + r * r"
    by (simp add: power2_eq_square algebra_simps)
  ultimately show ?thesis by simp
qed

lemma rms_node_Fin:
  "rms_node (Fin a) (Fin r) (Fin t) = Fin (sqrt (a\<^sup>2 + r\<^sup>2 - 2 * a * r * cos t))"
  using rms_radicand_nonneg[of a r t]
  by (simp add: rms_node_def num_sub_def power2_eq_square)

lemma rms_node_zero: "rms_node (Fin a) (Fin a) (Fin 0) = Fin 0"
  by (simp add: rms_node_Fin power2_eq_square)

lemma rms_contour_eq:
  "rms_contour d =
     Contour (map (\<lambda>t. map (\<lambda>_. t) (linspace (Fin 0) (Smax d) 100))
                (linspace (Fin 0) (Fin (pi / 2)) 100))
             (map (\<lambda>_. linspace (Fin 0) (Smax d) 100) (linspace (Fin 0) (Fin (pi / 2)) 100))
             (map (\<lambda>t. map (\<lambda>r. rms_node (refstd d) r t) (linspace (Fin 0) (Smax d) 100))
                (linspace (Fin 0) (Fin (pi / 2)) 100))
             (if Normalize d then LevelValues (linspace (Fin 0) (Fin (scale d)) 4)
              else LevelCount 4)"
proof -
  have z: "zip (map (\<lambda>_. R) T) (map (\<lambda>t. map (\<lambda>_. t) R) T) =
        map (\<lambda>t. (R, map (\<lambda>_. t) R)) T" for R :: "num list" and T :: "num list"
    by (induction T) simp_all
  have y: "zip R (map (\<lambda>_. t) R) = map (\<lambda>r. (r, t)) R" for R :: "num list" and t :: num
    by (induction R) simp_all
  show ?thesis
    unfolding rms_contour_def meshgrid_def rms_field_def
    by (simp add: z y comp_def)
qed


lemma linspace_radii:
  "linspace (Fin 0) (Fin S) 100 = map (\<lambda>j. Fin (real j * S / 99)) [0..<100]"
  unfolding linspace_from_zero[of 100 "Fin S", simplified] by simp

text \<open>
  Claim C8 as stated fails: without \<^verbatim>\<open>Normalize\<close>, for a reference of a single
  value the reference radius \<^verbatim>\<open>refstd\<close> is NaN, and the formula gives NaN at angle 0
  and that radius, not 0.
\<close>

theorem single_value_reference_nan_rms:
  "refstd (outcome (TaylorDiagram (0, 0, 1, 1) \<lparr>name = ''ref'', vals = [5]\<rparr>
      [(''A'', [7])] False None None (6 / 5) 10 None)) = NaN \<and>
   rms_node
     (refstd (outcome (TaylorDiagram (0, 0, 1, 1) \<lparr>name = ''ref'', vals = [5]\<rparr>
        [(''A'', [7])] False None None (6 / 5) 10 None)))
     (refstd (outcome (TaylorDiagram (0, 0, 1, 1) \<lparr>name = ''ref'', vals = [5]\<rparr>
        [(''A'', [7])] False None None (6 / 5) 10 None)))
     (Fin 0) = NaN"
proof -
  define d where "d = outcome (TaylorDiagram (0, 0, 1, 1) \<lparr>name = ''ref'', vals = [5]\<rparr>
      [(''A'', [7])] False None None (6 / 5) 10 None)"
  have dist: "distinct (columns [(''A'', [7 :: real])])"
    by (simp add: columns_def)
  note f = TaylorDiagram_frame[OF dist, where ax = "(0, 0, 1, 1)"
      and r = "\<lparr>name = ''ref'', vals = [5]\<rparr>" and N = False and mk = None
      and cl = None and sc = "6 / 5" and msz = 10 and pk = None, folded d_def]
  have a: "refstd d = NaN"
    unfolding f(8) by (simp add: std_def)
  have c: "rms_node (refstd d) (refstd d) (Fin 0) = NaN"
    unfolding a by (simp add: rms_node_def num_sub_def)
  from a c show ?thesis
    unfolding d_def by simp
qed

text \<open>
  Claim C8, as amended. For every input (under pairwise distinct sample names) the
  nineteenth call on the figure draws the contours of the RMS field, computed on the
  grid of 100 angles, evenly spaced from 0 to \<open>\<pi>/2\<close>, by 100 radii from 0 to
  \<^verbatim>\<open>Smax\<close>, evenly spaced when \<^verbatim>\<open>Smax\<close> is a number: the field holds at the node of
  the angle \<open>t\<close> and the radius \<open>r\<close> the value of \<^verbatim>\<open>rms_node\<close> for the reference radius
  \<^verbatim>\<open>refstd\<close>, which on numbers is the law of cosines. The reference radius is 1 with
  \<^verbatim>\<open>Normalize\<close> and else the standard deviation of the reference; when it is a number
  (with \<^verbatim>\<open>Normalize\<close>, or for a reference of two values at least) the formula gives
  exactly 0 at angle 0 and that radius.
\<close>

theorem rms_field_law_of_cosines:
  fixes ax r df N mk cl sc msz pk
  assumes "distinct (columns df)"
  shows "fig (outcome (TaylorDiagram ax r df N mk cl sc msz pk)) ! 18 =
           Contour
             (map (\<lambda>t. map (\<lambda>_. t)
                     (linspace (Fin 0) (Smax (outcome (TaylorDiagram ax r df N mk cl sc msz pk))) 100))
                (linspace (Fin 0) (Fin (pi / 2)) 100))
             (map (\<lambda>_. linspace (Fin 0)
                     (Smax (outcome (TaylorDiagram ax r df N mk cl sc msz pk))) 100)
                (linspace (Fin 0) (Fin (pi / 2)) 100))
             (map (\<lambda>t. map (\<lambda>x. rms_node
                                  (refstd (outcome (TaylorDiagram ax r df N mk cl sc msz pk))) x t)
                     (linspace (Fin 0) (Smax (outcome (TaylorDiagram ax r df N mk cl sc msz pk))) 100))
                (linspace (Fin 0) (Fin (pi / 2)) 100))
             (if N then LevelValues (linspace (Fin 0) (Fin sc) 4) else LevelCount 4) \<and>
         linspace (Fin 0) (Fin (pi / 2)) 100 = map (\<lambda>i. Fin (real i * (pi / 2) / 99)) [0..<100] \<and>
         length (linspace (Fin 0) (Smax (outcome (TaylorDiagram ax r df N mk cl sc msz pk))) 100)
           = 100 \<and>
         (\<forall>S. Smax (outcome (TaylorDiagram ax r df N mk cl sc msz pk)) = Fin S \<longrightarrow>
            linspace (Fin 0) (Smax (outcome (TaylorDiagram ax r df N mk cl sc msz pk))) 100 =
              map (\<lambda>j. Fin (real j * S / 99)) [0..<100]) \<and>
         (\<forall>a x t. rms_node (Fin a) (Fin x) (Fin t) =
            Fin (sqrt (a\<^sup>2 + x\<^sup>2 - 2 * a * x * cos t))) \<and>
         refstd (outcome (TaylorDiagram ax r df N mk cl sc msz pk)) =
           (if N then Fin 1 else std (vals r)) \<and>
         (N \<or> 2 \<le> length (vals r) \<longrightarrow>
            rms_node (refstd (outcome (TaylorDiagram ax r df N mk cl sc msz pk)))
              (refstd (outcome (TaylorDiagram ax r df N mk cl sc msz pk))) (Fin 0) = Fin 0)"
proof -
  define d where "d = outcome (TaylorDiagram ax r df N mk cl sc msz pk)"
  note f = TaylorDiagram_frame[OF assms(1), where ax = ax and r = r and N = N
      and mk = mk and cl = cl and sc = sc and msz = msz and pk = pk, folded d_def]
  have a: "fig d ! 18 =
      Contour (map (\<lambda>t. map (\<lambda>_. t) (linspace (Fin 0) (Smax d) 100))
                (linspace (Fin 0) (Fin (pi / 2)) 100))
             (map (\<lambda>_. linspace (Fin 0) (Smax d) 100) (linspace (Fin 0) (Fin (pi / 2)) 100))
             (map (\<lambda>t. map (\<lambda>x. rms_node (refstd d) x t) (linspace (Fin 0) (Smax d) 100))
                (linspace (Fin 0) (Fin (pi / 2)) 100))
             (if N then LevelValues (linspace (Fin 0) (Fin sc) 4) else LevelCount 4)"
    unfolding fig_frame_nth(2)[OF f(1)] rms_contour_eq f(3) f(5) ..
  have b: "\<forall>S. Smax d = Fin S \<longrightarrow>
      linspace (Fin 0) (Smax d) 100 = map (\<lambda>j. Fin (real j * S / 99)) [0..<100]"
    by (simp add: linspace_radii)
  have c: "rms_node (refstd d) (refstd d) (Fin 0) = Fin 0" if "N \<or> 2 \<le> length (vals r)"
  proof -
    from that have "\<exists>a. refstd d = Fin a"
      unfolding f(8) by (cases N) (simp_all add: std_Fin)
    then obtain a where "refstd d = Fin a" ..
    then show ?thesis
      by (simp add: rms_node_zero)
  qed
  from a b c f(8) linspace_angles length_linspace[of "Fin 0" "Smax d" 100] rms_node_Fin
  show ?thesis
    unfolding d_def by blast
qed

theorem rms_field_law_of_cosines_witness:
  "distinct (columns [(''A'', [0, 1, 2])]) \<and>
   (True \<or> 2 \<le> length (vals \<lparr>name = ''ref'', vals = [0, 2, 4]\<rparr>)) \<and>
   Smax (outcome (TaylorDiagram (0, 0, 1, 1) \<lparr>name = ''ref'', vals = [0, 2, 4]\<rparr>
      [(''A'', [0, 1, 2])] True None None (6 / 5) 10 None)) = Fin (6 / 5) \<and>
   linspace (Fin 0) (Smax (outcome (TaylorDiagram (0, 0, 1, 1) \<lparr>name = ''ref'', vals = [0, 2, 4]\<rparr>
      [(''A'', [0, 1, 2])] True None None (6 / 5) 10 None))) 100 =
     map (\<lambda>j. Fin (real j * (6 / 5) / 99)) [0..<100] \<and>
   refstd (outcome (TaylorDiagram (0, 0, 1, 1) \<lparr>name = ''ref'', vals = [0, 2, 4]\<rparr>
      [(''A'', [0, 1, 2])] True None None (6 / 5) 10 None)) = Fin 1 \<and>
   rms_node
     (refstd (outcome (TaylorDiagram (0, 0, 1, 1) \<lparr>name = ''ref'', vals = [0, 2, 4]\<rparr>
        [(''A'', [0, 1, 2])] True None None (6 / 5) 10 None)))
     (refstd (outcome (TaylorDiagram (0, 0, 1, 1) \<lparr>name = ''ref'', vals = [0, 2, 4]\<rparr>
        [(''A'', [0, 1, 2])] True None None (6 / 5) 10 None)))
     (Fin 0) = Fin 0"
proof -
  define d where "d = outcome (TaylorDiagram (0, 0, 1, 1)
      \<lparr>name = ''ref'', vals = [0, 2, 4]\<rparr> [(''A'', [0, 1, 2])] True None None (6 / 5) 10 None)"
  have h: "distinct (columns [(''A'', [0, 1, 2 :: real])])"
    by (simp add: columns_def)
  have S: "Smax d = Fin (6 / 5)"
    using TaylorDiagram_frame(9)[OF h, where ax = "(0, 0, 1, 1)"
      and r = "\<lparr>name = ''ref'', vals = [0, 2, 4]\<rparr>" and N = True and mk = None and cl = None
      and sc = "6 / 5" and msz = 10 and pk = None, folded d_def]
    by auto
  note t = rms_field_law_of_cosines[OF h, of "(0, 0, 1, 1)"
      "\<lparr>name = ''ref'', vals = [0, 2, 4]\<rparr>" True None None "6 / 5" 10 None, folded d_def]
  from t have "\<forall>S. Smax d = Fin S \<longrightarrow>
      linspace (Fin 0) (Smax d) 100 = map (\<lambda>j. Fin (real j * S / 99)) [0..<100]"
    by blast
  with S have R: "linspace (Fin 0) (Smax d) 100 = map (\<lambda>j. Fin (real j * (6 / 5) / 99)) [0..<100]"
    by blast
  from t have "refstd d = Fin 1" "rms_node (refstd d) (refstd d) (Fin 0) = Fin 0"
    by simp_all
  with S R h show ?thesis
    unfolding d_def[symmetric] by simp
qed














end
